theory Spec2Isabelle
  imports Complex_Main
begin

section \<open>Data model\<close>

text \<open>
  The development embeds the pure-Python paths of \<^verbatim>\<open>bezier/_surface_helpers.py\<close>:
  the intersection classifier, the curved-polygon assembler and the sign test for
  polynomials in Bernstein form.  Floating-point numbers are modelled as exact reals
  (so there is neither round-off nor NaN); Python integers are \<^typ>\<open>int\<close>.
\<close>

datatype IntersectionClassification =
  FIRST | SECOND | OPPOSED | TANGENT_FIRST | TANGENT_SECOND | IGNORED_CORNER

text \<open>
  Exceptions are values.  \<open>ValueError\<close>, \<open>NotImplementedError\<close> and \<open>RuntimeError\<close>
  carry the first argument (the message) the source raises them with; the other
  constructors are the exceptions Python itself raises on a bad index, on an operation
  applied to \<open>None\<close>, on attribute access on \<open>None\<close> and on \<open>pop\<close> from an empty set.
\<close>

datatype error =
  ValueError string
  | NotImplementedError string
  | RuntimeError string
  | IndexError
  | TypeError
  | AttributeError
  | KeyError

definition SAME_CURVATURE :: string where
  "SAME_CURVATURE = ''Tangent curves have same curvature.''"

definition BAD_TANGENT :: string where
  "BAD_TANGENT = ''Curves moving in opposite direction but define overlapping arcs.''"

definition WRONG_CURVE :: string where
  "WRONG_CURVE = ''Start and end node not defined on same curve''"

definition EDGE_END :: string where
  "EDGE_END = ''Intersection occurs at the end of an edge''"

text \<open>
  A point or a tangent vector is a pair of reals (a \<open>1x2\<close> array); the control points of
  a curve are a list of points (the rows of \<open>_nodes\<close>).  An edge tuple may hold \<open>None\<close>
  in place of a curve, as the doctests of \<open>classify_intersection\<close> do.
\<close>

type_synonym point = "real \<times> real"
type_synonym nodes = "point list"
type_synonym edges = "nodes option list"

text \<open>
  Modelled from the spec: the class \<open>Intersection\<close> of \<open>_intersection_helpers\<close> is not
  among the sources; it is the record "\<open>(index_first, s, index_second, t,
  classification)\<close>", its attributes named as the sources read them.
  Every attribute may be \<open>None\<close>: the assembler creates
  objects for the end of an edge that carry only one curve's index and parameter, and
  \<open>interior_curve\<close> is \<open>None\<close> until the intersection has been classified.  The
  field \<open>ident\<close> is not an attribute; it stands for the identity of the object, which
  the assembler compares with \<open>is\<close>, \<open>in\<close> and \<open>remove\<close>: \<open>Some k\<close> for the objects
  the caller passes in, \<open>None\<close> for an object created during the walk (such an object
  is fresh, hence identical to none of the caller's).
\<close>

record Intersection =
  ident :: "nat option"
  index_first :: "int option"
  s :: "real option"
  index_second :: "int option"
  t :: "real option"
  interior_curve :: "IntersectionClassification option"

text \<open>Python indexing of a tuple: a negative index counts from the end.\<close>

definition tuple_get :: "'a list \<Rightarrow> int \<Rightarrow> error + 'a" where
  "tuple_get xs i =
     (if 0 \<le> i \<and> i < int (length xs) then Inr (xs ! nat i)
      else if i < 0 \<and> - int (length xs) \<le> i then Inr (xs ! nat (int (length xs) + i))
      else Inl IndexError)"

text \<open>\<open>edges[index]._nodes\<close>: the index may be \<open>None\<close>, and so may the entry.\<close>

definition edge_nodes :: "edges \<Rightarrow> int option \<Rightarrow> error + nodes" where
  "edge_nodes es idx =
     (case idx of
        None \<Rightarrow> Inl TypeError
      | Some i \<Rightarrow>
          (case tuple_get es i of
             Inl e \<Rightarrow> Inl e
           | Inr None \<Rightarrow> Inl AttributeError
           | Inr (Some c) \<Rightarrow> Inr c))"

text \<open>\<open>edges[(index - 1) % 3]._nodes\<close>; Python's \<open>%\<close> is the floored \<open>mod\<close> of HOL.\<close>

definition prev_edge_nodes :: "edges \<Rightarrow> int option \<Rightarrow> error + nodes" where
  "prev_edge_nodes es idx =
     (case idx of
        None \<Rightarrow> Inl TypeError
      | Some i \<Rightarrow> edge_nodes es (Some ((i - 1) mod 3)))"

section \<open>External collaborators\<close>

text \<open>
  Modelled from the spec: \<open>_helpers.cross_product\<close> is not among the sources.  The
  docstring of \<open>classify_intersection\<close> gives its value on two planar vectors as
  \<open>x1 * y2 - x2 * y1\<close>.
\<close>

definition cross_product :: "point \<Rightarrow> point \<Rightarrow> real" where
  "cross_product v w = fst v * snd w - fst w * snd v"

text \<open>\<open>np.vdot\<close> on two planar row vectors.\<close>

definition vdot :: "point \<Rightarrow> point \<Rightarrow> real" where
  "vdot v w = fst v * fst w + snd v * snd w"

text \<open>
  \<open>_curve_helpers.evaluate_hodograph\<close> and \<open>_curve_helpers.get_curvature\<close> are not
  among the sources either.  Every function that calls them takes them as the
  parameters \<open>hodo\<close> (called as \<open>hodo s nodes\<close>) and \<open>curv\<close> (called as
  \<open>curv nodes tangent s\<close>), so each theorem holds for whatever they compute.
\<close>

type_synonym hodograph = "real \<Rightarrow> nodes \<Rightarrow> point"
type_synonym curvature = "nodes \<Rightarrow> point \<Rightarrow> real \<Rightarrow> real"

text \<open>
  Modelled from the spec: the hodograph is "the derivative curve, giving the tangent
  vector".  For control points \<open>P0 .. Pn\<close> the derivative of the Bezier curve is the
  Bezier curve of degree \<open>n - 1\<close> on the points \<open>n * (P(i+1) - Pi)\<close>, evaluated here by
  de Casteljau's scheme.  It is used only to instantiate \<open>hodo\<close> on concrete curves.
\<close>

fun first_deriv :: "nodes \<Rightarrow> nodes" where
  "first_deriv (p # q # ps) = (fst q - fst p, snd q - snd p) # first_deriv (q # ps)"
| "first_deriv _ = []"

fun de_casteljau_step :: "real \<Rightarrow> nodes \<Rightarrow> nodes" where
  "de_casteljau_step u (p # q # ps) =
     ((1 - u) * fst p + u * fst q, (1 - u) * snd p + u * snd q) # de_casteljau_step u (q # ps)"
| "de_casteljau_step u _ = []"

definition evaluate_hodograph :: hodograph where
  "evaluate_hodograph u ns =
     (let d = first_deriv ns;
          r = ((de_casteljau_step u) ^^ (length d - 1)) d;
          n = real (length ns - 1)
      in case r of [] \<Rightarrow> (0, 0) | p # _ \<Rightarrow> (n * fst p, n * snd p))"

section \<open>Intersection classifier\<close>

text \<open>\<open>classify_tangent_intersection\<close>; \<open>_SIGN\<close> is \<open>numpy.sign\<close>, here \<^const>\<open>sgn\<close>.\<close>

definition classify_tangent_intersection ::
  "curvature \<Rightarrow> Intersection \<Rightarrow> nodes \<Rightarrow> point \<Rightarrow> nodes \<Rightarrow> point
     \<Rightarrow> error + IntersectionClassification" where
  "classify_tangent_intersection curv intersection nodes1 tangent1 nodes2 tangent2 =
     (let dot_prod = vdot tangent1 tangent2 in
      case (s intersection, t intersection) of
        (None, _) \<Rightarrow> Inl TypeError
      | (Some sv, None) \<Rightarrow> Inl TypeError
      | (Some sv, Some tv) \<Rightarrow>
      (let curvature1 = curv nodes1 tangent1 sv;
           curvature2 = curv nodes2 tangent2 tv
       in if dot_prod < 0 then
            (let sign1 = sgn curvature1; sign2 = sgn curvature2
             in if sign1 = sign2 then
                  (if sign1 = 1 then Inr OPPOSED
                   else Inl (NotImplementedError BAD_TANGENT))
                else
                  (let delta_c = \<bar>curvature1\<bar> - \<bar>curvature2\<bar>
                   in if delta_c = 0 then Inl (NotImplementedError SAME_CURVATURE)
                      else if sign1 = sgn delta_c then Inr OPPOSED
                      else Inl (NotImplementedError BAD_TANGENT)))
          else
            (if curvature1 > curvature2 then Inr TANGENT_FIRST
             else if curvature1 < curvature2 then Inr TANGENT_SECOND
             else Inl (NotImplementedError SAME_CURVATURE))))"

text \<open>\<open>ignored_edge_corner\<close>; the in-place \<open>*= -1.0\<close> negates both components.\<close>

definition ignored_edge_corner :: "hodograph \<Rightarrow> point \<Rightarrow> point \<Rightarrow> nodes \<Rightarrow> bool" where
  "ignored_edge_corner hodo edge_tangent corner_tangent corner_previous_edge =
     (let cross_prod = cross_product edge_tangent corner_tangent
      in if cross_prod > 0 then False
         else
           (let alt0 = hodo 1 corner_previous_edge;
                alt_corner_tangent = (- fst alt0, - snd alt0);
                cross_prod' = cross_product edge_tangent alt_corner_tangent
            in cross_prod' \<le> 0))"

text \<open>\<open>ignored_double_corner\<close>; the two \<open>prev_edge\<close> lookups happen in the source's order.\<close>

definition ignored_double_corner ::
  "hodograph \<Rightarrow> Intersection \<Rightarrow> point \<Rightarrow> point \<Rightarrow> edges \<Rightarrow> edges \<Rightarrow> error + bool" where
  "ignored_double_corner hodo intersection tangent_s tangent_t edges1 edges2 =
     (case prev_edge_nodes edges1 (index_first intersection) of Inl e \<Rightarrow> Inl e
      | Inr prev_edge1 \<Rightarrow>
     (let alt_tangent_s = hodo 1 prev_edge1;
          cross_prod1 = cross_product tangent_s tangent_t
      in if cross_prod1 \<ge> 0 \<and> cross_product alt_tangent_s tangent_t \<ge> 0 then Inr False
         else
           (case prev_edge_nodes edges2 (index_second intersection) of Inl e \<Rightarrow> Inl e
            | Inr prev_edge2 \<Rightarrow>
           (let alt0 = hodo 1 prev_edge2;
                alt_tangent_t = (- fst alt0, - snd alt0);
                cross_prod3 = cross_product tangent_s alt_tangent_t
            in if cross_prod3 \<ge> 0 \<and> cross_product alt_tangent_s alt_tangent_t \<ge> 0
               then Inr False
               else Inr (\<not> (cross_prod1 \<le> 0 \<and> cross_prod3 \<ge> 0))))))"

text \<open>\<open>ignored_corner\<close>; \<open>x == 0.0\<close> is false when \<open>x\<close> is \<open>None\<close>.\<close>

definition ignored_corner ::
  "hodograph \<Rightarrow> Intersection \<Rightarrow> point \<Rightarrow> point \<Rightarrow> edges \<Rightarrow> edges \<Rightarrow> error + bool" where
  "ignored_corner hodo intersection tangent_s tangent_t edges1 edges2 =
     (if s intersection = Some 0 then
        (if t intersection = Some 0 then
           ignored_double_corner hodo intersection tangent_s tangent_t edges1 edges2
         else
           (case prev_edge_nodes edges1 (index_first intersection) of Inl e \<Rightarrow> Inl e
            | Inr prev_edge \<Rightarrow> Inr (ignored_edge_corner hodo tangent_t tangent_s prev_edge)))
      else if t intersection = Some 0 then
        (case prev_edge_nodes edges2 (index_second intersection) of Inl e \<Rightarrow> Inl e
         | Inr prev_edge \<Rightarrow> Inr (ignored_edge_corner hodo tangent_s tangent_t prev_edge))
      else Inr False)"

text \<open>
  \<open>classify_intersection\<close>.  The hodograph of a parameter that is \<open>None\<close> is a
  \<open>TypeError\<close> (the collaborator does arithmetic on it).
\<close>

definition classify_intersection ::
  "hodograph \<Rightarrow> curvature \<Rightarrow> Intersection \<Rightarrow> edges \<Rightarrow> edges
     \<Rightarrow> error + IntersectionClassification" where
  "classify_intersection hodo curv intersection edges1 edges2 =
     (if s intersection = Some 1 \<or> t intersection = Some 1 then Inl (ValueError EDGE_END)
      else
        (case edge_nodes edges1 (index_first intersection) of Inl e \<Rightarrow> Inl e
         | Inr nodes1 \<Rightarrow>
        (case s intersection of None \<Rightarrow> Inl TypeError
         | Some sv \<Rightarrow>
        (case edge_nodes edges2 (index_second intersection) of Inl e \<Rightarrow> Inl e
         | Inr nodes2 \<Rightarrow>
        (case t intersection of None \<Rightarrow> Inl TypeError
         | Some tv \<Rightarrow>
        (let tangent1 = hodo sv nodes1; tangent2 = hodo tv nodes2
         in (case ignored_corner hodo intersection tangent1 tangent2 edges1 edges2 of
               Inl e \<Rightarrow> Inl e
             | Inr ignored \<Rightarrow>
                 if ignored then Inr IGNORED_CORNER
                 else
                   (let cross_prod = cross_product tangent1 tangent2
                    in if cross_prod < 0 then Inr FIRST
                       else if cross_prod > 0 then Inr SECOND
                       else classify_tangent_intersection curv intersection
                              nodes1 tangent1 nodes2 tangent2))))))))"

section \<open>Curved-polygon assembler\<close>

text \<open>
  Modelled from the spec: the class \<open>Surface\<close> is not among the sources.  A surface is
  given by its control points (the attribute \<open>_nodes\<close> the assembler reads).  Its
  method \<open>locate\<close> ("\<open>locate(surface, point) -> parameter|None\<close>") is the parameter
  \<open>locate\<close> of the assembler, called as \<open>locate surface point\<close>, with \<open>None\<close> for a
  point outside the surface.
\<close>

record Surface =
  surface_nodes :: nodes

type_synonym locate = "Surface \<Rightarrow> point \<Rightarrow> point option"

text \<open>
  Modelled from the spec: the curved-polygon container is not among the sources ("only
  its construction contract is specified"): it holds the edges it is built from, and
  with \<open>_verify=False\<close> its constructor checks nothing.  An element of the assembler's
  result is a whole surface or a curved polygon.  \<open>Curve.specialize\<close> is not among the
  sources either and is the parameter \<open>specialize\<close>, called as
  \<open>specialize nodes start end\<close>.
\<close>

datatype shape = WholeSurface Surface | CurvedPolygon "nodes list"

type_synonym specialize = "nodes \<Rightarrow> real \<Rightarrow> real \<Rightarrow> nodes"

fun num_sides :: "shape \<Rightarrow> nat" where
  "num_sides (WholeSurface _) = 3"
| "num_sides (CurvedPolygon es) = length es"

text \<open>
  Modelled from the spec: "\<open>specialize(curve, start, end)\<close> (reparametrize to a
  sub-interval)".  Control point \<open>j\<close> of the reparametrised curve of degree \<open>n\<close> is
  the blossom of the curve at \<open>n - j\<close> copies of \<open>start\<close> and \<open>j\<close> copies of \<open>end\<close>.
  It is used only to instantiate \<open>specialize\<close> on concrete curves.
\<close>

definition specialize_curve :: specialize where
  "specialize_curve ns a b =
     (let n = length ns - 1
      in concat (map (\<lambda>j. ((de_casteljau_step b) ^^ j) (((de_casteljau_step a) ^^ (n - j)) ns))
                     [0 ..< length ns]))"

text \<open>\<open>_ACCEPTABLE\<close>: membership of a classification in \<open>(FIRST, SECOND)\<close>.\<close>

definition acceptable :: "Intersection \<Rightarrow> bool" where
  "acceptable i = (interior_curve i = Some FIRST \<or> interior_curve i = Some SECOND)"

text \<open>
  Modelled from the spec: a walk ends when it "returns to its start node (exactly, by
  reference)".  The class \<open>Intersection\<close> (not among the sources) is taken to define
  no equality of its own, so that \<open>in\<close> and \<open>remove\<close> compare identities as \<open>is\<close>
  does.  \<open>discard x unused\<close> is \<open>if x in unused: unused.remove(x)\<close>, returning the
  list after the mutation.
\<close>

definition is_same :: "Intersection \<Rightarrow> Intersection \<Rightarrow> bool" where
  "is_same a b = (ident a \<noteq> None \<and> ident a = ident b)"

fun remove_obj :: "Intersection \<Rightarrow> Intersection list \<Rightarrow> Intersection list" where
  "remove_obj x [] = []"
| "remove_obj x (e # es) = (if is_same x e then es else e # remove_obj x es)"

definition discard :: "Intersection \<Rightarrow> Intersection list \<Rightarrow> Intersection list" where
  "discard x unused = (if \<exists>e \<in> set unused. is_same x e then remove_obj x unused else unused)"

text \<open>
  Ordering comparisons of parameters.  On \<open>None\<close> they raise \<open>TypeError\<close> (Python 3);
  the walk never reaches that case on intersections whose parameters are numbers.
\<close>

definition py_gt :: "real option \<Rightarrow> real option \<Rightarrow> error + bool" where
  "py_gt a b = (case (a, b) of (Some x, Some y) \<Rightarrow> Inr (x > y) | _ \<Rightarrow> Inl TypeError)"

definition py_lt :: "real option \<Rightarrow> real option \<Rightarrow> error + bool" where
  "py_lt a b = (case (a, b) of (Some x, Some y) \<Rightarrow> Inr (x < y) | _ \<Rightarrow> Inl TypeError)"

text \<open>\<open>(index + 1) % 3\<close> on an index that may be \<open>None\<close>.\<close>

definition next_index :: "int option \<Rightarrow> error + int" where
  "next_index idx = (case idx of None \<Rightarrow> Inl TypeError | Some i \<Rightarrow> Inr ((i + 1) mod 3))"

text \<open>
  \<open>to_front\<close>.  The loop over \<open>intersections\<close> that looks for an existing object at the
  rotated position is \<open>find_existing\<close>; the function returns the node together with
  the list \<open>unused\<close> after the mutation.
\<close>

fun find_existing :: "Intersection \<Rightarrow> Intersection list \<Rightarrow> Intersection" where
  "find_existing x [] = x"
| "find_existing x (other_int # rest) =
     (if s other_int = s x \<and> index_first other_int = index_first x then other_int
      else if t other_int = t x \<and> index_second other_int = index_second x then other_int
      else find_existing x rest)"

definition to_front ::
  "Intersection \<Rightarrow> Intersection list \<Rightarrow> Intersection list
     \<Rightarrow> error + (Intersection \<times> Intersection list)" where
  "to_front intersection intersections unused =
     (case (if s intersection = Some 1 then
              (case next_index (index_first intersection) of Inl e \<Rightarrow> Inl e
               | Inr nxt \<Rightarrow>
                   Inr (True, \<lparr>ident = None, index_first = Some nxt, s = Some 0,
                               index_second = index_second intersection, t = t intersection,
                               interior_curve = interior_curve intersection\<rparr>))
            else Inr (False, intersection)) of
        Inl e \<Rightarrow> Inl e
      | Inr (changed1, x1) \<Rightarrow>
     (case (if t x1 = Some 1 then
              (case next_index (index_second x1) of Inl e \<Rightarrow> Inl e
               | Inr nxt \<Rightarrow>
                   Inr (True, \<lparr>ident = None, index_first = index_first x1, s = s x1,
                               index_second = Some nxt, t = Some 0,
                               interior_curve = interior_curve x1\<rparr>))
            else Inr (changed1, x1)) of
        Inl e \<Rightarrow> Inl e
      | Inr (changed, x2) \<Rightarrow>
          (let x3 = (if changed then find_existing x2 intersections else x2)
           in Inr (x3, discard x3 unused))))"

text \<open>
  \<open>get_next_first\<close> and \<open>get_next_second\<close>: the \<open>for\<close> loop carries \<open>along_edge\<close>;
  \<open>and\<close> and \<open>or\<close> evaluate their second operand only when needed.
\<close>

fun get_next_first_loop ::
  "int option \<Rightarrow> real option \<Rightarrow> Intersection list \<Rightarrow> Intersection option
     \<Rightarrow> error + Intersection option" where
  "get_next_first_loop idx sv [] along_edge = Inr along_edge"
| "get_next_first_loop idx sv (other_int # rest) along_edge =
     (if index_first other_int = idx then
        (case py_gt (s other_int) sv of Inl e \<Rightarrow> Inl e
         | Inr gt \<Rightarrow>
             if \<not> gt then get_next_first_loop idx sv rest along_edge
             else
               (case py_lt (s other_int) (Some 1) of Inl e \<Rightarrow> Inl e
                | Inr lt1 \<Rightarrow>
                    if lt1 \<and> \<not> acceptable other_int
                    then get_next_first_loop idx sv rest along_edge
                    else
                      (case along_edge of
                         None \<Rightarrow> get_next_first_loop idx sv rest (Some other_int)
                       | Some a \<Rightarrow>
                           (case py_lt (s other_int) (s a) of Inl e \<Rightarrow> Inl e
                            | Inr lt \<Rightarrow>
                                get_next_first_loop idx sv rest
                                  (if lt then Some other_int else along_edge)))))
      else get_next_first_loop idx sv rest along_edge)"

definition get_next_first :: "Intersection \<Rightarrow> Intersection list \<Rightarrow> error + Intersection" where
  "get_next_first intersection intersections =
     (case get_next_first_loop (index_first intersection) (s intersection) intersections None of
        Inl e \<Rightarrow> Inl e
      | Inr None \<Rightarrow>
          Inr \<lparr>ident = None, index_first = index_first intersection, s = Some 1,
               index_second = None, t = None, interior_curve = Some FIRST\<rparr>
      | Inr (Some along_edge) \<Rightarrow> Inr along_edge)"

fun get_next_second_loop ::
  "int option \<Rightarrow> real option \<Rightarrow> Intersection list \<Rightarrow> Intersection option
     \<Rightarrow> error + Intersection option" where
  "get_next_second_loop idx tv [] along_edge = Inr along_edge"
| "get_next_second_loop idx tv (other_int # rest) along_edge =
     (if index_second other_int = idx then
        (case py_gt (t other_int) tv of Inl e \<Rightarrow> Inl e
         | Inr gt \<Rightarrow>
             if \<not> gt then get_next_second_loop idx tv rest along_edge
             else
               (case py_lt (t other_int) (Some 1) of Inl e \<Rightarrow> Inl e
                | Inr lt1 \<Rightarrow>
                    if lt1 \<and> \<not> acceptable other_int
                    then get_next_second_loop idx tv rest along_edge
                    else
                      (case along_edge of
                         None \<Rightarrow> get_next_second_loop idx tv rest (Some other_int)
                       | Some a \<Rightarrow>
                           (case py_lt (t other_int) (t a) of Inl e \<Rightarrow> Inl e
                            | Inr lt \<Rightarrow>
                                get_next_second_loop idx tv rest
                                  (if lt then Some other_int else along_edge)))))
      else get_next_second_loop idx tv rest along_edge)"

definition get_next_second :: "Intersection \<Rightarrow> Intersection list \<Rightarrow> error + Intersection" where
  "get_next_second intersection intersections =
     (case get_next_second_loop (index_second intersection) (t intersection) intersections None of
        Inl e \<Rightarrow> Inl e
      | Inr None \<Rightarrow>
          Inr \<lparr>ident = None, index_first = None, s = None,
               index_second = index_second intersection, t = Some 1,
               interior_curve = Some SECOND\<rparr>
      | Inr (Some along_edge) \<Rightarrow> Inr along_edge)"

text \<open>\<open>get_next\<close> (the inner quotation marks of the message are dropped).\<close>

definition get_next ::
  "Intersection \<Rightarrow> Intersection list \<Rightarrow> Intersection list
     \<Rightarrow> error + (Intersection \<times> Intersection list)" where
  "get_next intersection intersections unused =
     (case (if interior_curve intersection = Some FIRST
            then get_next_first intersection intersections
            else if interior_curve intersection = Some SECOND
            then get_next_second intersection intersections
            else Inl (ValueError ''Cannot get next node if not starting from first or second.'')) of
        Inl e \<Rightarrow> Inl e
      | Inr result \<Rightarrow> Inr (result, discard result unused))"

text \<open>
  \<open>ends_to_curve\<close> returns the 4-tuple \<open>(first, index, start, end)\<close> (the inner
  quotation marks of the last message are dropped); \<open>edge_infos\<close> is the generator
  expression that applies it to every pair of \<open>edge_ends\<close>, in order.
\<close>

type_synonym edge_descr = "bool \<times> int option \<times> real option \<times> real option"

definition ends_to_curve :: "Intersection \<Rightarrow> Intersection \<Rightarrow> error + edge_descr" where
  "ends_to_curve start_node end_node =
     (if interior_curve start_node = Some FIRST then
        (if index_first end_node \<noteq> index_first start_node then Inl (ValueError WRONG_CURVE)
         else Inr (True, index_first start_node, s start_node, s end_node))
      else if interior_curve start_node = Some SECOND then
        (if index_second end_node \<noteq> index_second start_node then Inl (ValueError WRONG_CURVE)
         else Inr (False, index_second start_node, t start_node, t end_node))
      else Inl (ValueError ''Segment start must be classified as FIRST or SECOND.''))"

fun edge_infos :: "(Intersection \<times> Intersection) list \<Rightarrow> error + edge_descr list" where
  "edge_infos [] = Inr []"
| "edge_infos ((start_node, end_node) # rest) =
     (case ends_to_curve start_node end_node of Inl e \<Rightarrow> Inl e
      | Inr d \<Rightarrow> (case edge_infos rest of Inl e \<Rightarrow> Inl e | Inr ds \<Rightarrow> Inr (d # ds)))"

text \<open>
  \<open>no_intersections\<close>; \<open>surface._nodes[0, :]\<close> raises \<open>IndexError\<close> on a surface
  without control points.
\<close>

definition no_intersections :: "locate \<Rightarrow> Surface \<Rightarrow> Surface \<Rightarrow> error + shape list" where
  "no_intersections loc surface1 surface2 =
     (case surface_nodes surface1 of [] \<Rightarrow> Inl IndexError
      | corner1 # _ \<Rightarrow>
          if loc surface2 corner1 \<noteq> None then Inr [WholeSurface surface1]
          else
            (case surface_nodes surface2 of [] \<Rightarrow> Inl IndexError
             | corner2 # _ \<Rightarrow>
                 if loc surface1 corner2 \<noteq> None then Inr [WholeSurface surface2]
                 else Inr []))"

text \<open>
  \<open>tangent_only_intersections\<close>; the set \<open>all_types\<close> is the duplicate-free list of
  the classifications, and \<open>pop\<close> is applied only when it has one element.
\<close>

definition tangent_only_intersections ::
  "Intersection list \<Rightarrow> Surface \<Rightarrow> Surface \<Rightarrow> error + shape list" where
  "tangent_only_intersections intersections surface1 surface2 =
     (case remdups (map interior_curve intersections) of
        [point_type] \<Rightarrow>
          if point_type = Some OPPOSED then Inr []
          else if point_type = Some IGNORED_CORNER then Inr []
          else if point_type = Some TANGENT_FIRST then Inr [WholeSurface surface1]
          else if point_type = Some TANGENT_SECOND then Inr [WholeSurface surface2]
          else Inl (ValueError ''Point type not for tangency'')
      | _ \<Rightarrow> Inl (ValueError ''Unexpected value, types should all match''))"

text \<open>\<open>make_intersection\<close>, with the loop that specializes each edge.\<close>

definition FIRST_SURFACE_INFO :: "edge_descr list list" where
  "FIRST_SURFACE_INFO =
     [[(True, Some 0, Some 0, Some 1), (True, Some 1, Some 0, Some 1), (True, Some 2, Some 0, Some 1)],
      [(True, Some 1, Some 0, Some 1), (True, Some 2, Some 0, Some 1), (True, Some 0, Some 0, Some 1)],
      [(True, Some 2, Some 0, Some 1), (True, Some 0, Some 0, Some 1), (True, Some 1, Some 0, Some 1)]]"

definition SECOND_SURFACE_INFO :: "edge_descr list list" where
  "SECOND_SURFACE_INFO =
     [[(False, Some 0, Some 0, Some 1), (False, Some 1, Some 0, Some 1), (False, Some 2, Some 0, Some 1)],
      [(False, Some 1, Some 0, Some 1), (False, Some 2, Some 0, Some 1), (False, Some 0, Some 0, Some 1)],
      [(False, Some 2, Some 0, Some 1), (False, Some 0, Some 0, Some 1), (False, Some 1, Some 0, Some 1)]]"

fun specialized_edges :: "specialize \<Rightarrow> edges \<Rightarrow> edges \<Rightarrow> edge_descr list \<Rightarrow> error + nodes list" where
  "specialized_edges spec edges1 edges2 [] = Inr []"
| "specialized_edges spec edges1 edges2 ((first, index, start, end) # rest) =
     (case edge_nodes (if first then edges1 else edges2) index of Inl e \<Rightarrow> Inl e
      | Inr c \<Rightarrow>
          (case (start, end) of
             (Some a, Some b) \<Rightarrow>
               (case specialized_edges spec edges1 edges2 rest of Inl e \<Rightarrow> Inl e
                | Inr es \<Rightarrow> Inr (spec c a b # es))
           | _ \<Rightarrow> Inl TypeError))"

definition make_intersection ::
  "specialize \<Rightarrow> edge_descr list \<Rightarrow> Surface \<Rightarrow> edges \<Rightarrow> Surface \<Rightarrow> edges \<Rightarrow> error + shape" where
  "make_intersection spec edge_info surface1 edges1 surface2 edges2 =
     (if edge_info \<in> set FIRST_SURFACE_INFO then Inr (WholeSurface surface1)
      else if edge_info \<in> set SECOND_SURFACE_INFO then Inr (WholeSurface surface2)
      else
        (case specialized_edges spec edges1 edges2 edge_info of Inl e \<Rightarrow> Inl e
         | Inr es \<Rightarrow> Inr (CurvedPolygon es)))"

text \<open>
  The inner \<open>while\<close> loop of \<open>basic_interior_combine\<close>, from the test
  \<open>next_node is not start\<close> on.  It returns \<open>edge_ends\<close> and \<open>unused\<close> as they are
  when the loop ends.
\<close>

function walk ::
  "Intersection \<Rightarrow> int \<Rightarrow> Intersection list \<Rightarrow> Intersection
     \<Rightarrow> (Intersection \<times> Intersection) list \<Rightarrow> Intersection list
     \<Rightarrow> error + ((Intersection \<times> Intersection) list \<times> Intersection list)" where
  "walk start max_edges intersections next_node edge_ends unused =
     (if is_same next_node start then Inr (edge_ends, unused)
      else
        (case to_front next_node intersections unused of Inl e \<Rightarrow> Inl e
         | Inr (curr_node, unused1) \<Rightarrow>
             if is_same curr_node start then Inr (edge_ends, unused1)
             else
               (case get_next curr_node intersections unused1 of Inl e \<Rightarrow> Inl e
                | Inr (next_node', unused2) \<Rightarrow>
                    (let edge_ends' = edge_ends @ [(curr_node, next_node')]
                     in if int (length edge_ends') > max_edges
                        then Inl (RuntimeError ''Unexpected number of edges'')
                        else walk start max_edges intersections next_node' edge_ends' unused2))))"
  by pat_completeness auto
termination
  by (relation "measure (\<lambda>(start, max_edges, intersections, next_node, edge_ends, unused).
                  nat (max_edges - int (length edge_ends)))") auto

text \<open>
  The body of the outer \<open>while unused\<close> loop: \<open>unused.pop()\<close> takes the last element;
  the result is the shape appended to \<open>result\<close> and the list \<open>unused\<close> afterwards.
\<close>

definition trace_loop ::
  "specialize \<Rightarrow> Intersection list \<Rightarrow> Surface \<Rightarrow> edges \<Rightarrow> Surface \<Rightarrow> edges \<Rightarrow> int
     \<Rightarrow> Intersection list \<Rightarrow> error + (shape \<times> Intersection list)" where
  "trace_loop spec intersections surface1 edges1 surface2 edges2 max_edges unused =
     (let start = last unused; unused0 = butlast unused
      in case get_next start intersections unused0 of Inl e \<Rightarrow> Inl e
         | Inr (next_node, unused1) \<Rightarrow>
             (case walk start max_edges intersections next_node [(start, next_node)] unused1 of
                Inl e \<Rightarrow> Inl e
              | Inr (edge_ends, unused2) \<Rightarrow>
                  (case edge_infos edge_ends of Inl e \<Rightarrow> Inl e
                   | Inr edge_info \<Rightarrow>
                       (case make_intersection spec edge_info surface1 edges1 surface2 edges2 of
                          Inl e \<Rightarrow> Inl e
                        | Inr sh \<Rightarrow> Inr (sh, unused2)))))"

text \<open>The walk only ever removes elements from \<open>unused\<close>, so the outer loop terminates.\<close>

lemma length_remove_obj: "length (remove_obj x xs) \<le> length xs"
  by (induction xs) auto

lemma length_discard: "length (discard x xs) \<le> length xs"
  by (simp add: discard_def length_remove_obj)

lemma get_next_unused: "get_next i ints u = Inr (r, u') \<Longrightarrow> length u' \<le> length u"
  by (auto simp: get_next_def length_discard split: sum.splits if_splits)

lemma to_front_unused: "to_front i ints u = Inr (r, u') \<Longrightarrow> length u' \<le> length u"
  by (auto simp: to_front_def Let_def length_discard split: sum.splits if_splits prod.splits)

lemma walk_unused:
  "walk start m ints nxt ee u = Inr (ee', u') \<Longrightarrow> length u' \<le> length u"
proof (induction start m ints nxt ee u rule: walk.induct)
  case (1 start max_edges intersections next_node edge_ends unused)
  show ?case
  proof (cases "is_same next_node start")
    case True
    with "1.prems" show ?thesis by simp
  next
    case False
    note ns = this
    from "1.prems" ns obtain curr_node unused1 where
      tf: "to_front next_node intersections unused = Inr (curr_node, unused1)"
      by (auto split: sum.splits)
    have l1: "length unused1 \<le> length unused" using to_front_unused[OF tf] .
    show ?thesis
    proof (cases "is_same curr_node start")
      case True
      with "1.prems" ns tf l1 show ?thesis by simp
    next
      case False
      note cs = this
      from "1.prems" ns tf cs obtain next_node' unused2 where
        gn: "get_next curr_node intersections unused1 = Inr (next_node', unused2)"
        by (auto split: sum.splits)
      have l2: "length unused2 \<le> length unused1" using get_next_unused[OF gn] .
      from "1.prems" ns tf cs gn have
        le: "\<not> int (length (edge_ends @ [(curr_node, next_node')])) > max_edges"
        and w: "walk start max_edges intersections next_node' (edge_ends @ [(curr_node, next_node')]) unused2 = Inr (ee', u')"
        by (auto simp: Let_def split: if_splits)
      from "1.IH"[OF ns tf refl cs gn refl refl le w] l1 l2 show ?thesis by simp
    qed
  qed
qed

lemma trace_loop_unused:
  "unused \<noteq> [] \<Longrightarrow> trace_loop spec ints s1 e1 s2 e2 m unused = Inr (sh, u') \<Longrightarrow> length u' < length unused"
proof -
  assume ne: "unused \<noteq> []" and tl: "trace_loop spec ints s1 e1 s2 e2 m unused = Inr (sh, u')"
  from tl obtain next_node unused1 where
    gn: "get_next (last unused) ints (butlast unused) = Inr (next_node, unused1)"
    by (auto simp: trace_loop_def Let_def split: sum.splits)
  from tl gn obtain edge_ends where
    w: "walk (last unused) m ints next_node [(last unused, next_node)] unused1 = Inr (edge_ends, u')"
    by (auto simp: trace_loop_def Let_def simp del: walk.simps split: sum.splits)
  from get_next_unused[OF gn] walk_unused[OF w] ne show ?thesis
    by (cases unused rule: rev_cases) auto
qed

text \<open>\<open>basic_interior_combine\<close>: the outer loop, and the function with its initial state.\<close>

function basic_interior_combine_loop ::
  "specialize \<Rightarrow> Intersection list \<Rightarrow> Surface \<Rightarrow> edges \<Rightarrow> Surface \<Rightarrow> edges \<Rightarrow> int
     \<Rightarrow> Intersection list \<Rightarrow> shape list \<Rightarrow> error + shape list" where
  "basic_interior_combine_loop spec intersections surface1 edges1 surface2 edges2 max_edges
       unused result =
     (if unused = [] then Inr result
      else
        (case trace_loop spec intersections surface1 edges1 surface2 edges2 max_edges unused of
           Inl e \<Rightarrow> Inl e
         | Inr (sh, unused') \<Rightarrow>
             basic_interior_combine_loop spec intersections surface1 edges1 surface2 edges2
               max_edges unused' (result @ [sh])))"
  by pat_completeness auto
termination
  by (relation "measure (\<lambda>(spec, intersections, surface1, edges1, surface2, edges2, max_edges,
                  unused, result). length unused)") (auto dest: trace_loop_unused)

definition basic_interior_combine ::
  "specialize \<Rightarrow> Intersection list \<Rightarrow> Surface \<Rightarrow> edges \<Rightarrow> Surface \<Rightarrow> edges \<Rightarrow> int
     \<Rightarrow> error + shape list" where
  "basic_interior_combine spec intersections surface1 edges1 surface2 edges2 max_edges =
     basic_interior_combine_loop spec intersections surface1 edges1 surface2 edges2 max_edges
       (filter acceptable intersections) []"

text \<open>\<open>combine_intersections\<close>, which calls \<open>basic_interior_combine\<close> with the default \<open>max_edges=10\<close>.\<close>

definition combine_intersections ::
  "locate \<Rightarrow> specialize \<Rightarrow> Intersection list \<Rightarrow> Surface \<Rightarrow> edges \<Rightarrow> Surface \<Rightarrow> edges
     \<Rightarrow> error + shape list" where
  "combine_intersections loc spec intersections surface1 edges1 surface2 edges2 =
     (if intersections = [] then no_intersections loc surface1 surface2
      else
        (case basic_interior_combine spec intersections surface1 edges1 surface2 edges2 10 of
           Inl e \<Rightarrow> Inl e
         | Inr result \<Rightarrow>
             if result \<noteq> [] then Inr result
             else tangent_only_intersections intersections surface1 surface2))"

text \<open>
  The invariant of the data model under which the assembler is called: "every
  Intersection has s,t strictly in [0,1)" (\<open>handle_ends\<close> rotates a crossing at the
  end of an edge to the start of the next, and \<open>classify_intersection\<close> raises there),
  and the entries of the list are objects of their own, so that entries with the same
  identity are the same object.
\<close>

definition in_unit_interval :: "real option \<Rightarrow> bool" where
  "in_unit_interval p = (case p of None \<Rightarrow> False | Some v \<Rightarrow> 0 \<le> v \<and> v < 1)"

definition valid_intersections :: "Intersection list \<Rightarrow> bool" where
  "valid_intersections intersections =
     ((\<forall>x \<in> set intersections. in_unit_interval (s x) \<and> in_unit_interval (t x))
      \<and> (\<forall>x \<in> set intersections. \<forall>y \<in> set intersections. ident x = ident y \<longrightarrow> x = y))"

section \<open>Jacobian sign certifier\<close>

text \<open>
  A polynomial in Bernstein form is the column of its coefficients (an array with one
  column).  \<open>_helpers.matrix_product\<close> is not among the sources.

  Modelled from the spec: "\<open>matrix_product(matrix, nodes) -> nodes\<close>", the product of a
  matrix (a list of rows) with a column; as \<open>numpy.dot\<close> does, it raises \<open>ValueError\<close>
  when a row and the column differ in length.
\<close>

type_synonym poly = "real list"

definition matrix_product :: "real list list \<Rightarrow> poly \<Rightarrow> error + poly" where
  "matrix_product mat nodes =
     (if \<forall>row \<in> set mat. length row = length nodes
      then Inr (map (\<lambda>row. sum_list (map2 (*) row nodes)) mat)
      else Inl (ValueError ''shapes not aligned''))"

text \<open>The subdivision matrices, with the source's entries and divisors.\<close>

definition LINEAR_SUBDIVIDE_A :: "real list list" where
  "LINEAR_SUBDIVIDE_A =
     map (map (\<lambda>x. x / 2))
       [[2, 0, 0],
        [1, 1, 0],
        [1, 0, 1]]"

definition LINEAR_SUBDIVIDE_B :: "real list list" where
  "LINEAR_SUBDIVIDE_B =
     map (map (\<lambda>x. x / 2))
       [[0, 1, 1],
        [1, 0, 1],
        [1, 1, 0]]"

definition LINEAR_SUBDIVIDE_C :: "real list list" where
  "LINEAR_SUBDIVIDE_C =
     map (map (\<lambda>x. x / 2))
       [[1, 1, 0],
        [0, 2, 0],
        [0, 1, 1]]"

definition LINEAR_SUBDIVIDE_D :: "real list list" where
  "LINEAR_SUBDIVIDE_D =
     map (map (\<lambda>x. x / 2))
       [[1, 0, 1],
        [0, 1, 1],
        [0, 0, 2]]"

definition QUADRATIC_SUBDIVIDE_A :: "real list list" where
  "QUADRATIC_SUBDIVIDE_A =
     map (map (\<lambda>x. x / 4))
       [[4, 0, 0, 0, 0, 0],
        [2, 2, 0, 0, 0, 0],
        [1, 2, 1, 0, 0, 0],
        [2, 0, 0, 2, 0, 0],
        [1, 1, 0, 1, 1, 0],
        [1, 0, 0, 2, 0, 1]]"

definition QUADRATIC_SUBDIVIDE_B :: "real list list" where
  "QUADRATIC_SUBDIVIDE_B =
     map (map (\<lambda>x. x / 4))
       [[0, 0, 1, 0, 2, 1],
        [0, 1, 0, 1, 1, 1],
        [1, 0, 0, 2, 0, 1],
        [0, 1, 1, 1, 1, 0],
        [1, 1, 0, 1, 1, 0],
        [1, 2, 1, 0, 0, 0]]"

definition QUADRATIC_SUBDIVIDE_C :: "real list list" where
  "QUADRATIC_SUBDIVIDE_C =
     map (map (\<lambda>x. x / 4))
       [[1, 2, 1, 0, 0, 0],
        [0, 2, 2, 0, 0, 0],
        [0, 0, 4, 0, 0, 0],
        [0, 1, 1, 1, 1, 0],
        [0, 0, 2, 0, 2, 0],
        [0, 0, 1, 0, 2, 1]]"

definition QUADRATIC_SUBDIVIDE_D :: "real list list" where
  "QUADRATIC_SUBDIVIDE_D =
     map (map (\<lambda>x. x / 4))
       [[1, 0, 0, 2, 0, 1],
        [0, 1, 0, 1, 1, 1],
        [0, 0, 1, 0, 2, 1],
        [0, 0, 0, 2, 0, 2],
        [0, 0, 0, 0, 2, 2],
        [0, 0, 0, 0, 0, 4]]"

definition CUBIC_SUBDIVIDE_A :: "real list list" where
  "CUBIC_SUBDIVIDE_A =
     map (map (\<lambda>x. x / 8))
       [[8, 0, 0, 0, 0, 0, 0, 0, 0, 0],
        [4, 4, 0, 0, 0, 0, 0, 0, 0, 0],
        [2, 4, 2, 0, 0, 0, 0, 0, 0, 0],
        [1, 3, 3, 1, 0, 0, 0, 0, 0, 0],
        [4, 0, 0, 0, 4, 0, 0, 0, 0, 0],
        [2, 2, 0, 0, 2, 2, 0, 0, 0, 0],
        [1, 2, 1, 0, 1, 2, 1, 0, 0, 0],
        [2, 0, 0, 0, 4, 0, 0, 2, 0, 0],
        [1, 1, 0, 0, 2, 2, 0, 1, 1, 0],
        [1, 0, 0, 0, 3, 0, 0, 3, 0, 1]]"

definition CUBIC_SUBDIVIDE_B :: "real list list" where
  "CUBIC_SUBDIVIDE_B =
     map (map (\<lambda>x. x / 8))
       [[0, 0, 0, 1, 0, 0, 3, 0, 3, 1],
        [0, 0, 1, 0, 0, 2, 1, 1, 2, 1],
        [0, 1, 0, 0, 1, 2, 0, 2, 1, 1],
        [1, 0, 0, 0, 3, 0, 0, 3, 0, 1],
        [0, 0, 1, 1, 0, 2, 2, 1, 1, 0],
        [0, 1, 1, 0, 1, 2, 1, 1, 1, 0],
        [1, 1, 0, 0, 2, 2, 0, 1, 1, 0],
        [0, 1, 2, 1, 1, 2, 1, 0, 0, 0],
        [1, 2, 1, 0, 1, 2, 1, 0, 0, 0],
        [1, 3, 3, 1, 0, 0, 0, 0, 0, 0]]"

definition CUBIC_SUBDIVIDE_C :: "real list list" where
  "CUBIC_SUBDIVIDE_C =
     map (map (\<lambda>x. x / 8))
       [[1, 3, 3, 1, 0, 0, 0, 0, 0, 0],
        [0, 2, 4, 2, 0, 0, 0, 0, 0, 0],
        [0, 0, 4, 4, 0, 0, 0, 0, 0, 0],
        [0, 0, 0, 8, 0, 0, 0, 0, 0, 0],
        [0, 1, 2, 1, 1, 2, 1, 0, 0, 0],
        [0, 0, 2, 2, 0, 2, 2, 0, 0, 0],
        [0, 0, 0, 4, 0, 0, 4, 0, 0, 0],
        [0, 0, 1, 1, 0, 2, 2, 1, 1, 0],
        [0, 0, 0, 2, 0, 0, 4, 0, 2, 0],
        [0, 0, 0, 1, 0, 0, 3, 0, 3, 1]]"

definition CUBIC_SUBDIVIDE_D :: "real list list" where
  "CUBIC_SUBDIVIDE_D =
     map (map (\<lambda>x. x / 8))
       [[1, 0, 0, 0, 3, 0, 0, 3, 0, 1],
        [0, 1, 0, 0, 1, 2, 0, 2, 1, 1],
        [0, 0, 1, 0, 0, 2, 1, 1, 2, 1],
        [0, 0, 0, 1, 0, 0, 3, 0, 3, 1],
        [0, 0, 0, 0, 2, 0, 0, 4, 0, 2],
        [0, 0, 0, 0, 0, 2, 0, 2, 2, 2],
        [0, 0, 0, 0, 0, 0, 2, 0, 4, 2],
        [0, 0, 0, 0, 0, 0, 0, 4, 0, 4],
        [0, 0, 0, 0, 0, 0, 0, 0, 4, 4],
        [0, 0, 0, 0, 0, 0, 0, 0, 0, 8]]"

definition QUARTIC_SUBDIVIDE_A :: "real list list" where
  "QUARTIC_SUBDIVIDE_A =
     map (map (\<lambda>x. x / 16))
       [[16, 0, 0, 0, 0, 0, 0, 0, 0, 0, 0, 0, 0, 0, 0],
        [8, 8, 0, 0, 0, 0, 0, 0, 0, 0, 0, 0, 0, 0, 0],
        [4, 8, 4, 0, 0, 0, 0, 0, 0, 0, 0, 0, 0, 0, 0],
        [2, 6, 6, 2, 0, 0, 0, 0, 0, 0, 0, 0, 0, 0, 0],
        [1, 4, 6, 4, 1, 0, 0, 0, 0, 0, 0, 0, 0, 0, 0],
        [8, 0, 0, 0, 0, 8, 0, 0, 0, 0, 0, 0, 0, 0, 0],
        [4, 4, 0, 0, 0, 4, 4, 0, 0, 0, 0, 0, 0, 0, 0],
        [2, 4, 2, 0, 0, 2, 4, 2, 0, 0, 0, 0, 0, 0, 0],
        [1, 3, 3, 1, 0, 1, 3, 3, 1, 0, 0, 0, 0, 0, 0],
        [4, 0, 0, 0, 0, 8, 0, 0, 0, 4, 0, 0, 0, 0, 0],
        [2, 2, 0, 0, 0, 4, 4, 0, 0, 2, 2, 0, 0, 0, 0],
        [1, 2, 1, 0, 0, 2, 4, 2, 0, 1, 2, 1, 0, 0, 0],
        [2, 0, 0, 0, 0, 6, 0, 0, 0, 6, 0, 0, 2, 0, 0],
        [1, 1, 0, 0, 0, 3, 3, 0, 0, 3, 3, 0, 1, 1, 0],
        [1, 0, 0, 0, 0, 4, 0, 0, 0, 6, 0, 0, 4, 0, 1]]"

definition QUARTIC_SUBDIVIDE_B :: "real list list" where
  "QUARTIC_SUBDIVIDE_B =
     map (map (\<lambda>x. x / 16))
       [[0, 0, 0, 0, 1, 0, 0, 0, 4, 0, 0, 6, 0, 4, 1],
        [0, 0, 0, 1, 0, 0, 0, 3, 1, 0, 3, 3, 1, 3, 1],
        [0, 0, 1, 0, 0, 0, 2, 2, 0, 1, 4, 1, 2, 2, 1],
        [0, 1, 0, 0, 0, 1, 3, 0, 0, 3, 3, 0, 3, 1, 1],
        [1, 0, 0, 0, 0, 4, 0, 0, 0, 6, 0, 0, 4, 0, 1],
        [0, 0, 0, 1, 1, 0, 0, 3, 3, 0, 3, 3, 1, 1, 0],
        [0, 0, 1, 1, 0, 0, 2, 3, 1, 1, 3, 2, 1, 1, 0],
        [0, 1, 1, 0, 0, 1, 3, 2, 0, 2, 3, 1, 1, 1, 0],
        [1, 1, 0, 0, 0, 3, 3, 0, 0, 3, 3, 0, 1, 1, 0],
        [0, 0, 1, 2, 1, 0, 2, 4, 2, 1, 2, 1, 0, 0, 0],
        [0, 1, 2, 1, 0, 1, 3, 3, 1, 1, 2, 1, 0, 0, 0],
        [1, 2, 1, 0, 0, 2, 4, 2, 0, 1, 2, 1, 0, 0, 0],
        [0, 1, 3, 3, 1, 1, 3, 3, 1, 0, 0, 0, 0, 0, 0],
        [1, 3, 3, 1, 0, 1, 3, 3, 1, 0, 0, 0, 0, 0, 0],
        [1, 4, 6, 4, 1, 0, 0, 0, 0, 0, 0, 0, 0, 0, 0]]"

definition QUARTIC_SUBDIVIDE_C :: "real list list" where
  "QUARTIC_SUBDIVIDE_C =
     map (map (\<lambda>x. x / 16))
       [[1, 4, 6, 4, 1, 0, 0, 0, 0, 0, 0, 0, 0, 0, 0],
        [0, 2, 6, 6, 2, 0, 0, 0, 0, 0, 0, 0, 0, 0, 0],
        [0, 0, 4, 8, 4, 0, 0, 0, 0, 0, 0, 0, 0, 0, 0],
        [0, 0, 0, 8, 8, 0, 0, 0, 0, 0, 0, 0, 0, 0, 0],
        [0, 0, 0, 0, 16, 0, 0, 0, 0, 0, 0, 0, 0, 0, 0],
        [0, 1, 3, 3, 1, 1, 3, 3, 1, 0, 0, 0, 0, 0, 0],
        [0, 0, 2, 4, 2, 0, 2, 4, 2, 0, 0, 0, 0, 0, 0],
        [0, 0, 0, 4, 4, 0, 0, 4, 4, 0, 0, 0, 0, 0, 0],
        [0, 0, 0, 0, 8, 0, 0, 0, 8, 0, 0, 0, 0, 0, 0],
        [0, 0, 1, 2, 1, 0, 2, 4, 2, 1, 2, 1, 0, 0, 0],
        [0, 0, 0, 2, 2, 0, 0, 4, 4, 0, 2, 2, 0, 0, 0],
        [0, 0, 0, 0, 4, 0, 0, 0, 8, 0, 0, 4, 0, 0, 0],
        [0, 0, 0, 1, 1, 0, 0, 3, 3, 0, 3, 3, 1, 1, 0],
        [0, 0, 0, 0, 2, 0, 0, 0, 6, 0, 0, 6, 0, 2, 0],
        [0, 0, 0, 0, 1, 0, 0, 0, 4, 0, 0, 6, 0, 4, 1]]"

definition QUARTIC_SUBDIVIDE_D :: "real list list" where
  "QUARTIC_SUBDIVIDE_D =
     map (map (\<lambda>x. x / 16))
       [[1, 0, 0, 0, 0, 4, 0, 0, 0, 6, 0, 0, 4, 0, 1],
        [0, 1, 0, 0, 0, 1, 3, 0, 0, 3, 3, 0, 3, 1, 1],
        [0, 0, 1, 0, 0, 0, 2, 2, 0, 1, 4, 1, 2, 2, 1],
        [0, 0, 0, 1, 0, 0, 0, 3, 1, 0, 3, 3, 1, 3, 1],
        [0, 0, 0, 0, 1, 0, 0, 0, 4, 0, 0, 6, 0, 4, 1],
        [0, 0, 0, 0, 0, 2, 0, 0, 0, 6, 0, 0, 6, 0, 2],
        [0, 0, 0, 0, 0, 0, 2, 0, 0, 2, 4, 0, 4, 2, 2],
        [0, 0, 0, 0, 0, 0, 0, 2, 0, 0, 4, 2, 2, 4, 2],
        [0, 0, 0, 0, 0, 0, 0, 0, 2, 0, 0, 6, 0, 6, 2],
        [0, 0, 0, 0, 0, 0, 0, 0, 0, 4, 0, 0, 8, 0, 4],
        [0, 0, 0, 0, 0, 0, 0, 0, 0, 0, 4, 0, 4, 4, 4],
        [0, 0, 0, 0, 0, 0, 0, 0, 0, 0, 0, 4, 0, 8, 4],
        [0, 0, 0, 0, 0, 0, 0, 0, 0, 0, 0, 0, 8, 0, 8],
        [0, 0, 0, 0, 0, 0, 0, 0, 0, 0, 0, 0, 0, 8, 8],
        [0, 0, 0, 0, 0, 0, 0, 0, 0, 0, 0, 0, 0, 0, 16]]"

definition WEIGHTS_SUBDIVIDE0 :: "real \<times> real \<times> real" where
  "WEIGHTS_SUBDIVIDE0 = (1, 0, 0)"

definition WEIGHTS_SUBDIVIDE1 :: "real \<times> real \<times> real" where
  "WEIGHTS_SUBDIVIDE1 = (1 / 2, 1 / 2, 0)"

definition WEIGHTS_SUBDIVIDE2 :: "real \<times> real \<times> real" where
  "WEIGHTS_SUBDIVIDE2 = (1 / 2, 0, 1 / 2)"

definition WEIGHTS_SUBDIVIDE3 :: "real \<times> real \<times> real" where
  "WEIGHTS_SUBDIVIDE3 = (0, 1 / 2, 1 / 2)"

definition WEIGHTS_SUBDIVIDE4 :: "real \<times> real \<times> real" where
  "WEIGHTS_SUBDIVIDE4 = (0, 1, 0)"

definition WEIGHTS_SUBDIVIDE5 :: "real \<times> real \<times> real" where
  "WEIGHTS_SUBDIVIDE5 = (0, 0, 1)"

text \<open>
  \<open>_subdivide_nodes\<close>.  The four products (or specializations) are computed in the
  order A, B, C, D, so the first failure is the one raised.  In the last branch the
  source calls \<open>specialize_surface\<close>, a name the module binds on import either to
  its own \<open>_specialize_surface\<close> or to the compiled implementation; it is the
  parameter \<open>spec_surf\<close>, called as \<open>spec_surf nodes degree weights_a weights_b weights_c\<close>.
\<close>

type_synonym specialize_surface =
  "poly \<Rightarrow> int \<Rightarrow> real \<times> real \<times> real \<Rightarrow> real \<times> real \<times> real \<Rightarrow> real \<times> real \<times> real \<Rightarrow> error + poly"

fun four_results :: "(error + poly) list \<Rightarrow> error + poly list" where
  "four_results [] = Inr []"
| "four_results (Inl e # _) = Inl e"
| "four_results (Inr p # rest) =
     (case four_results rest of Inl e \<Rightarrow> Inl e | Inr ps \<Rightarrow> Inr (p # ps))"

definition subdivide_nodes :: "specialize_surface \<Rightarrow> poly \<Rightarrow> int \<Rightarrow> error + poly list" where
  "subdivide_nodes spec_surf nodes degree =
     (if degree = 1 then
        four_results [matrix_product LINEAR_SUBDIVIDE_A nodes, matrix_product LINEAR_SUBDIVIDE_B nodes,
                      matrix_product LINEAR_SUBDIVIDE_C nodes, matrix_product LINEAR_SUBDIVIDE_D nodes]
      else if degree = 2 then
        four_results [matrix_product QUADRATIC_SUBDIVIDE_A nodes, matrix_product QUADRATIC_SUBDIVIDE_B nodes,
                      matrix_product QUADRATIC_SUBDIVIDE_C nodes, matrix_product QUADRATIC_SUBDIVIDE_D nodes]
      else if degree = 3 then
        four_results [matrix_product CUBIC_SUBDIVIDE_A nodes, matrix_product CUBIC_SUBDIVIDE_B nodes,
                      matrix_product CUBIC_SUBDIVIDE_C nodes, matrix_product CUBIC_SUBDIVIDE_D nodes]
      else if degree = 4 then
        four_results [matrix_product QUARTIC_SUBDIVIDE_A nodes, matrix_product QUARTIC_SUBDIVIDE_B nodes,
                      matrix_product QUARTIC_SUBDIVIDE_C nodes, matrix_product QUARTIC_SUBDIVIDE_D nodes]
      else
        four_results
          [spec_surf nodes degree WEIGHTS_SUBDIVIDE0 WEIGHTS_SUBDIVIDE1 WEIGHTS_SUBDIVIDE2,
           spec_surf nodes degree WEIGHTS_SUBDIVIDE3 WEIGHTS_SUBDIVIDE2 WEIGHTS_SUBDIVIDE1,
           spec_surf nodes degree WEIGHTS_SUBDIVIDE1 WEIGHTS_SUBDIVIDE4 WEIGHTS_SUBDIVIDE3,
           spec_surf nodes degree WEIGHTS_SUBDIVIDE2 WEIGHTS_SUBDIVIDE3 WEIGHTS_SUBDIVIDE5])"

text \<open>
  \<open>polynomial_sign\<close> calls \<open>subdivide_nodes\<close>, which the module likewise binds on
  import to \<open>_subdivide_nodes\<close> or to the compiled implementation: it is the
  parameter \<open>subdivide\<close>, and the theorems hold for every such function.
\<close>

type_synonym subdivide = "poly \<Rightarrow> int \<Rightarrow> error + poly list"

definition MAX_POLY_SUBDIVISIONS :: nat where
  "MAX_POLY_SUBDIVISIONS = 5"

definition NO_CONCLUSION :: string where
  "NO_CONCLUSION = ''Did not reach a conclusion after max subdivisions''"

text \<open>\<open>_SIGN(x).astype(int)\<close> on one coefficient.\<close>

definition sign_int :: "real \<Rightarrow> int" where
  "sign_int x = (if x > 0 then 1 else if x < 0 then - 1 else 0)"

text \<open>
  \<open>_SIGN(poly[corner_indices, 0]).astype(int)\<close> with \<open>corner_indices = (0, degree, -1)\<close>:
  an index outside the column raises \<open>IndexError\<close>.
\<close>

definition corner_signs :: "poly \<Rightarrow> int \<Rightarrow> error + int list" where
  "corner_signs poly degree =
     (case tuple_get poly 0 of Inl e \<Rightarrow> Inl e
      | Inr c0 \<Rightarrow>
     (case tuple_get poly degree of Inl e \<Rightarrow> Inl e
      | Inr c1 \<Rightarrow>
     (case tuple_get poly (- 1) of Inl e \<Rightarrow> Inl e
      | Inr c2 \<Rightarrow> Inr [sign_int c0, sign_int c1, sign_int c2])))"

text \<open>
  The set \<open>signs\<close> is a list without duplicates: \<open>add\<close> is \<^const>\<open>List.insert\<close>,
  \<open>update\<close> folds it, \<open>len\<close> is \<^const>\<open>length\<close>.  \<open>pop\<close> raises \<open>KeyError\<close> on the
  empty set; the source calls it only on a set with at most one element.
\<close>

definition signs_update :: "int list \<Rightarrow> int list \<Rightarrow> int list" where
  "signs_update xs signs = fold List.insert xs signs"

definition signs_pop :: "int list \<Rightarrow> error + int" where
  "signs_pop signs = (case signs of [] \<Rightarrow> Inl KeyError | x # _ \<Rightarrow> Inr x)"

text \<open>
  The inner loop \<open>for poly in sub_polys\<close>.  \<open>None\<close> stands for the \<open>return 0\<close> inside
  the loop; otherwise the result is the pair of \<open>signs\<close> and \<open>undecided\<close> at its end.
\<close>

fun scan_polys ::
  "int \<Rightarrow> poly list \<Rightarrow> int list \<Rightarrow> poly list \<Rightarrow> error + (int list \<times> poly list) option" where
  "scan_polys degree [] signs undecided = Inr (Some (signs, undecided))"
| "scan_polys degree (poly # rest) signs undecided =
     (case corner_signs poly degree of Inl e \<Rightarrow> Inl e
      | Inr cs \<Rightarrow>
          (let signs1 = signs_update cs signs;
               (signs2, undecided2) =
                 (if list_all (\<lambda>c. c = 0) poly then (List.insert 0 signs1, undecided)
                  else if list_all (\<lambda>c. c > 0) poly then (List.insert 1 signs1, undecided)
                  else if list_all (\<lambda>c. c < 0) poly then (List.insert (- 1) signs1, undecided)
                  else (signs1, undecided @ [poly]))
           in if length signs2 > 1 then Inr None
              else scan_polys degree rest signs2 undecided2))"

text \<open>
  \<open>functools.reduce(operator.add, [subdivide_nodes(poly, degree) for poly in undecided], ())\<close>:
  every polynomial is subdivided first, then the tuples are concatenated.
\<close>

fun subdivide_all :: "subdivide \<Rightarrow> int \<Rightarrow> poly list \<Rightarrow> error + poly list" where
  "subdivide_all subdivide degree [] = Inr []"
| "subdivide_all subdivide degree (poly # rest) =
     (case subdivide poly degree of Inl e \<Rightarrow> Inl e
      | Inr ps \<Rightarrow>
          (case subdivide_all subdivide degree rest of Inl e \<Rightarrow> Inl e
           | Inr qs \<Rightarrow> Inr (ps @ qs)))"

text \<open>The code after the \<open>for\<close> loop.\<close>

definition conclude :: "poly list \<Rightarrow> int list \<Rightarrow> error + int" where
  "conclude sub_polys signs =
     (if sub_polys \<noteq> [] then Inl (ValueError NO_CONCLUSION) else signs_pop signs)"

text \<open>
  The loop \<open>for _ in range(_MAX_POLY_SUBDIVISIONS)\<close> with the rounds that remain as its
  first argument: \<open>break\<close> and the exhausted range both lead to the code after the loop.
\<close>

fun subdivision_rounds ::
  "nat \<Rightarrow> subdivide \<Rightarrow> int \<Rightarrow> poly list \<Rightarrow> int list \<Rightarrow> error + int" where
  "subdivision_rounds 0 subdivide degree sub_polys signs = conclude sub_polys signs"
| "subdivision_rounds (Suc n) subdivide degree sub_polys signs =
     (case scan_polys degree sub_polys signs [] of
        Inl e \<Rightarrow> Inl e
      | Inr None \<Rightarrow> Inr 0
      | Inr (Some (signs', undecided)) \<Rightarrow>
          (case subdivide_all subdivide degree undecided of
             Inl e \<Rightarrow> Inl e
           | Inr sub_polys' \<Rightarrow>
               if sub_polys' = [] then conclude sub_polys' signs'
               else subdivision_rounds n subdivide degree sub_polys' signs'))"

definition polynomial_sign :: "subdivide \<Rightarrow> poly \<Rightarrow> int \<Rightarrow> error + int" where
  "polynomial_sign subdivide poly_surface degree =
     subdivision_rounds MAX_POLY_SUBDIVISIONS subdivide degree [poly_surface] []"

text \<open>
  Two observers of the loop of \<open>polynomial_sign\<close>, which follow the recursion of
  \<open>subdivision_rounds\<close>: \<open>rounds_performed\<close> counts the iterations that reach the
  subdivision statement (\<open>sub_polys = functools.reduce(...)\<close>), and \<open>exhausted\<close> says
  that the loop runs through all its iterations without \<open>return\<close>, \<open>raise\<close> or
  \<open>break\<close>, so that polynomials are left undecided when the range is used up.
\<close>

fun rounds_performed :: "nat \<Rightarrow> subdivide \<Rightarrow> int \<Rightarrow> poly list \<Rightarrow> int list \<Rightarrow> nat" where
  "rounds_performed 0 subdivide degree sub_polys signs = 0"
| "rounds_performed (Suc n) subdivide degree sub_polys signs =
     (case scan_polys degree sub_polys signs [] of
        Inl e \<Rightarrow> 0
      | Inr None \<Rightarrow> 0
      | Inr (Some (signs', undecided)) \<Rightarrow>
          (case subdivide_all subdivide degree undecided of
             Inl e \<Rightarrow> 1
           | Inr sub_polys' \<Rightarrow>
               if sub_polys' = [] then 1
               else 1 + rounds_performed n subdivide degree sub_polys' signs'))"

fun exhausted :: "nat \<Rightarrow> subdivide \<Rightarrow> int \<Rightarrow> poly list \<Rightarrow> int list \<Rightarrow> bool" where
  "exhausted 0 subdivide degree sub_polys signs = (sub_polys \<noteq> [])"
| "exhausted (Suc n) subdivide degree sub_polys signs =
     (case scan_polys degree sub_polys signs [] of
        Inl e \<Rightarrow> False
      | Inr None \<Rightarrow> False
      | Inr (Some (signs', undecided)) \<Rightarrow>
          (case subdivide_all subdivide degree undecided of
             Inl e \<Rightarrow> False
           | Inr sub_polys' \<Rightarrow>
               sub_polys' \<noteq> [] \<and> exhausted n subdivide degree sub_polys' signs'))"

section \<open>Properties of the intersection classifier\<close>

lemma classify_tangent_not_ignored:
  "classify_tangent_intersection curv i n1 t1 n2 t2 \<noteq> Inr IGNORED_CORNER"
  by (auto simp add: classify_tangent_intersection_def Let_def split: option.splits if_splits)

text \<open>
  C1.  Away from the end of an edge (\<open>s \<noteq> 1\<close>, \<open>t \<noteq> 1\<close>) and away from a corner
  (\<open>s \<noteq> 0\<close>, \<open>t \<noteq> 0\<close>), on edges that exist, \<open>classify_intersection\<close> is decided by
  the cross product of the two tangents: \<open>FIRST\<close> when it is negative, \<open>SECOND\<close> when
  it is positive, and the result of \<open>classify_tangent_intersection\<close> exactly when it
  is zero.  On the quadratics \<open>[[1,0],[1.75,.25],[2,1]]\<close> and
  \<open>[[0,0],[1.6875,.0625],[2,.5]]\<close> at \<open>s = 0.25\<close>, \<open>t = 0.5\<close> the result is \<open>FIRST\<close>.
\<close>

theorem classify_intersection_cross_product:
  "(s i = Some sv \<and> t i = Some tv \<and> sv \<noteq> 1 \<and> tv \<noteq> 1 \<and> sv \<noteq> 0 \<and> tv \<noteq> 0
      \<and> edge_nodes edges1 (index_first i) = Inr nodes1
      \<and> edge_nodes edges2 (index_second i) = Inr nodes2
    \<longrightarrow> classify_intersection hodo curv i edges1 edges2 =
         (let cross_prod = cross_product (hodo sv nodes1) (hodo tv nodes2)
          in if cross_prod < 0 then Inr FIRST
             else if cross_prod > 0 then Inr SECOND
             else classify_tangent_intersection curv i
                    nodes1 (hodo sv nodes1) nodes2 (hodo tv nodes2)))
   \<and> classify_intersection evaluate_hodograph curv
         \<lparr>ident = None, index_first = Some 0, s = Some (1 / 4), index_second = Some 0,
          t = Some (1 / 2), interior_curve = None\<rparr>
         [Some [(1, 0), (7 / 4, 1 / 4), (2, 1)], None, None]
         [Some [(0, 0), (27 / 16, 1 / 16), (2, 1 / 2)], None, None] = Inr FIRST"
proof (intro conjI impI)
  assume "s i = Some sv \<and> t i = Some tv \<and> sv \<noteq> 1 \<and> tv \<noteq> 1 \<and> sv \<noteq> 0 \<and> tv \<noteq> 0
      \<and> edge_nodes edges1 (index_first i) = Inr nodes1
      \<and> edge_nodes edges2 (index_second i) = Inr nodes2"
  then show "classify_intersection hodo curv i edges1 edges2 =
         (let cross_prod = cross_product (hodo sv nodes1) (hodo tv nodes2)
          in if cross_prod < 0 then Inr FIRST
             else if cross_prod > 0 then Inr SECOND
             else classify_tangent_intersection curv i
                    nodes1 (hodo sv nodes1) nodes2 (hodo tv nodes2))"
    by (simp add: classify_intersection_def ignored_corner_def Let_def)
next
  show "classify_intersection evaluate_hodograph curv
         \<lparr>ident = None, index_first = Some 0, s = Some (1 / 4), index_second = Some 0,
          t = Some (1 / 2), interior_curve = None\<rparr>
         [Some [(1, 0), (7 / 4, 1 / 4), (2, 1)], None, None]
         [Some [(0, 0), (27 / 16, 1 / 16), (2, 1 / 2)], None, None] = Inr FIRST"
    by (simp add: classify_intersection_def edge_nodes_def tuple_get_def ignored_corner_def
          evaluate_hodograph_def cross_product_def)
qed

text \<open>
  The theorem at the second doctest of \<open>classify_intersection\<close>: the tangents
  \<open>(1, 0)\<close> and \<open>(3, 0)\<close> are parallel, and the classification is that of
  \<open>classify_tangent_intersection\<close>.
\<close>

theorem classify_intersection_cross_product_witness:
  "cross_product (evaluate_hodograph (1 / 2) [(1, 0), (3 / 2, 1), (2, 0)])
                 (evaluate_hodograph (1 / 2) [(0, 0), (3 / 2, 1), (3, 0)]) = 0
   \<and> classify_intersection evaluate_hodograph (\<lambda>ns tangent u. 0)
         \<lparr>ident = None, index_first = Some 0, s = Some (1 / 2), index_second = Some 0,
          t = Some (1 / 2), interior_curve = None\<rparr>
         [Some [(1, 0), (3 / 2, 1), (2, 0)], None, None]
         [Some [(0, 0), (3 / 2, 1), (3, 0)], None, None]
     = classify_tangent_intersection (\<lambda>ns tangent u. 0)
         \<lparr>ident = None, index_first = Some 0, s = Some (1 / 2), index_second = Some 0,
          t = Some (1 / 2), interior_curve = None\<rparr>
         [(1, 0), (3 / 2, 1), (2, 0)] (1, 0) [(0, 0), (3 / 2, 1), (3, 0)] (3, 0)"
  using classify_intersection_cross_product
    [of "\<lparr>ident = None, index_first = Some 0, s = Some (1 / 2), index_second = Some 0,
          t = Some (1 / 2), interior_curve = None\<rparr>"
        "1 / 2" "1 / 2" "[Some [(1, 0), (3 / 2, 1), (2, 0)], None, None]"
        "[(1, 0), (3 / 2, 1), (2, 0)]" "[Some [(0, 0), (3 / 2, 1), (3, 0)], None, None]"
        "[(0, 0), (3 / 2, 1), (3, 0)]" evaluate_hodograph "\<lambda>ns tangent u. 0"]
  by (simp add: edge_nodes_def tuple_get_def evaluate_hodograph_def cross_product_def)

text \<open>
  C2.  Whenever \<open>s\<close> or \<open>t\<close> is \<open>1.0\<close>, \<open>classify_intersection\<close> raises the
  \<open>ValueError\<close> for the end of an edge, whatever the edges and the collaborators are.
\<close>

theorem classify_intersection_edge_end:
  "s i = Some 1 \<or> t i = Some 1
   \<Longrightarrow> classify_intersection hodo curv i edges1 edges2 = Inl (ValueError EDGE_END)"
  by (simp add: classify_intersection_def)

text \<open>The seventh doctest: \<open>s = 1.0\<close>, \<open>t = 0.375\<close>.\<close>

theorem classify_intersection_edge_end_witness:
  "(s \<lparr>ident = None, index_first = Some 0, s = Some 1, index_second = Some 0,
        t = Some (3 / 8), interior_curve = None\<rparr> = Some 1
    \<or> t \<lparr>ident = None, index_first = Some 0, s = Some 1, index_second = Some 0,
          t = Some (3 / 8), interior_curve = None\<rparr> = Some 1)
   \<and> classify_intersection evaluate_hodograph (\<lambda>ns tangent u. 0)
         \<lparr>ident = None, index_first = Some 0, s = Some 1, index_second = Some 0,
          t = Some (3 / 8), interior_curve = None\<rparr>
         [Some [(0, 0), (9 / 2, 0), (9, 9 / 4)], None, None]
         [Some [(45 / 4, 0), (9, 9 / 2), (11 / 4, 1)], None, None]
       = Inl (ValueError EDGE_END)"
  using classify_intersection_edge_end
    [of "\<lparr>ident = None, index_first = Some 0, s = Some 1, index_second = Some 0,
          t = Some (3 / 8), interior_curve = None\<rparr>"
        evaluate_hodograph "\<lambda>ns tangent u. 0"
        "[Some [(0, 0), (9 / 2, 0), (9, 9 / 4)], None, None]"
        "[Some [(45 / 4, 0), (9, 9 / 2), (11 / 4, 1)], None, None]"]
  by simp

text \<open>
  C3.  At a tangency whose tangents point the same way (their dot product is not
  negative), the curve with the larger curvature decides: \<open>TANGENT_FIRST\<close> when the
  first curvature is larger, \<open>TANGENT_SECOND\<close> when the second is, and the
  \<open>NotImplementedError\<close> for equal curvatures otherwise.
\<close>

theorem tangent_same_direction:
  assumes "s i = Some sv" and "t i = Some tv" and "0 \<le> vdot tangent1 tangent2"
  shows "classify_tangent_intersection curv i nodes1 tangent1 nodes2 tangent2 =
     (let curvature1 = curv nodes1 tangent1 sv; curvature2 = curv nodes2 tangent2 tv
      in if curvature1 > curvature2 then Inr TANGENT_FIRST
         else if curvature2 > curvature1 then Inr TANGENT_SECOND
         else Inl (NotImplementedError SAME_CURVATURE))"
  using assms by (simp add: classify_tangent_intersection_def Let_def)

text \<open>
  The second doctest: tangents \<open>(1, 0)\<close> and \<open>(3, 0)\<close>; the curvatures of the two
  parabolas there are \<open>-4\<close> and \<open>-4/9\<close>, so the second curve is the inner one.
\<close>

theorem tangent_same_direction_witness:
  "0 \<le> vdot (1, 0) (3, 0)
   \<and> classify_tangent_intersection
         (\<lambda>ns tangent u. if ns = [(1, 0), (3 / 2, 1), (2, 0)] then - 4 else - (4 / 9))
         \<lparr>ident = None, index_first = Some 0, s = Some (1 / 2), index_second = Some 0,
          t = Some (1 / 2), interior_curve = None\<rparr>
         [(1, 0), (3 / 2, 1), (2, 0)] (1, 0) [(0, 0), (3 / 2, 1), (3, 0)] (3, 0)
       = Inr TANGENT_SECOND"
  using tangent_same_direction
    [of "\<lparr>ident = None, index_first = Some 0, s = Some (1 / 2), index_second = Some 0,
          t = Some (1 / 2), interior_curve = None\<rparr>"
        "1 / 2" "1 / 2" "(1, 0)" "(3, 0)"
        "\<lambda>ns tangent u. if ns = [(1, 0), (3 / 2, 1), (2, 0)] then - 4 else - (4 / 9)"
        "[(1, 0), (3 / 2, 1), (2, 0)]" "[(0, 0), (3 / 2, 1), (3, 0)]"]
  by (simp add: vdot_def)

text \<open>
  C4.  At a tangency whose tangents point in opposite directions (negative dot
  product): when the curvatures have the same sign the result is \<open>OPPOSED\<close> if that
  sign is positive and the overlapping-arcs error if it is negative; when the signs
  differ the result is \<open>OPPOSED\<close> if the sign of the first curvature is the sign of
  \<open>|curvature1| - |curvature2|\<close>, the same-curvature error if the two absolute values
  are equal, and the overlapping-arcs error otherwise.
\<close>

theorem tangent_opposite_direction:
  assumes "s i = Some sv" and "t i = Some tv" and "vdot tangent1 tangent2 < 0"
    and "curvature1 = curv nodes1 tangent1 sv" and "curvature2 = curv nodes2 tangent2 tv"
    and "r = classify_tangent_intersection curv i nodes1 tangent1 nodes2 tangent2"
  shows "(sgn curvature1 = sgn curvature2 \<and> 0 < curvature1 \<longrightarrow> r = Inr OPPOSED)
       \<and> (sgn curvature1 = sgn curvature2 \<and> curvature1 < 0
             \<longrightarrow> r = Inl (NotImplementedError BAD_TANGENT))
       \<and> (sgn curvature1 \<noteq> sgn curvature2
            \<and> sgn curvature1 = sgn (\<bar>curvature1\<bar> - \<bar>curvature2\<bar>)
             \<longrightarrow> r = Inr OPPOSED)
       \<and> (sgn curvature1 \<noteq> sgn curvature2 \<and> \<bar>curvature1\<bar> = \<bar>curvature2\<bar>
             \<longrightarrow> r = Inl (NotImplementedError SAME_CURVATURE))
       \<and> (sgn curvature1 \<noteq> sgn curvature2 \<and> \<bar>curvature1\<bar> \<noteq> \<bar>curvature2\<bar>
            \<and> sgn curvature1 \<noteq> sgn (\<bar>curvature1\<bar> - \<bar>curvature2\<bar>)
             \<longrightarrow> r = Inl (NotImplementedError BAD_TANGENT))"
  using assms
  by (auto simp add: classify_tangent_intersection_def Let_def sgn_if split: if_splits)

text \<open>
  The fourth doctest: tangents \<open>(-1, 0)\<close> and \<open>(3, 0)\<close>, curvatures \<open>4\<close> and \<open>-4/9\<close>;
  the signs differ and \<open>4 - 4/9\<close> is positive like the first curvature: \<open>OPPOSED\<close>.
\<close>

theorem tangent_opposite_direction_witness:
  "vdot (- 1, 0) (3, 0) < 0
   \<and> sgn (4 :: real) \<noteq> sgn (- (4 / 9)) \<and> sgn (4 :: real) = sgn (\<bar>4\<bar> - \<bar>- (4 / 9)\<bar>)
   \<and> classify_tangent_intersection
         (\<lambda>ns tangent u. if ns = [(2, 0), (3 / 2, 1), (1, 0)] then 4 else - (4 / 9))
         \<lparr>ident = None, index_first = Some 0, s = Some (1 / 2), index_second = Some 0,
          t = Some (1 / 2), interior_curve = None\<rparr>
         [(2, 0), (3 / 2, 1), (1, 0)] (- 1, 0) [(0, 0), (3 / 2, 1), (3, 0)] (3, 0)
       = Inr OPPOSED"
  using tangent_opposite_direction
    [of "\<lparr>ident = None, index_first = Some 0, s = Some (1 / 2), index_second = Some 0,
          t = Some (1 / 2), interior_curve = None\<rparr>"
        "1 / 2" "1 / 2" "(- 1, 0)" "(3, 0)" 4
        "\<lambda>ns tangent u. if ns = [(2, 0), (3 / 2, 1), (1, 0)] then 4 else - (4 / 9)"
        "[(2, 0), (3 / 2, 1), (1, 0)]" "- (4 / 9)" "[(0, 0), (3 / 2, 1), (3, 0)]"
        "classify_tangent_intersection
           (\<lambda>ns tangent u. if ns = [(2, 0), (3 / 2, 1), (1, 0)] then 4 else - (4 / 9))
           \<lparr>ident = None, index_first = Some 0, s = Some (1 / 2), index_second = Some 0,
            t = Some (1 / 2), interior_curve = None\<rparr>
           [(2, 0), (3 / 2, 1), (1, 0)] (- 1, 0) [(0, 0), (3 / 2, 1), (3, 0)] (3, 0)"]
  by (simp add: vdot_def sgn_if)

text \<open>
  C10.  When neither parameter is \<open>0.0\<close> the corner test \<open>ignored_corner\<close> returns
  \<open>False\<close>; hence \<open>classify_intersection\<close> returns \<open>IGNORED_CORNER\<close> only for an
  intersection at the start of an edge (\<open>s = 0.0\<close> or \<open>t = 0.0\<close>).
\<close>

theorem ignored_corner_only_at_start:
  "(s i \<noteq> Some 0 \<and> t i \<noteq> Some 0
      \<longrightarrow> ignored_corner hodo i tangent_s tangent_t edges1 edges2 = Inr False)
   \<and> (classify_intersection hodo curv i edges1 edges2 = Inr IGNORED_CORNER
      \<longrightarrow> s i = Some 0 \<or> t i = Some 0)"
proof (intro conjI impI)
  assume "s i \<noteq> Some 0 \<and> t i \<noteq> Some 0"
  then show "ignored_corner hodo i tangent_s tangent_t edges1 edges2 = Inr False"
    by (simp add: ignored_corner_def)
next
  assume r: "classify_intersection hodo curv i edges1 edges2 = Inr IGNORED_CORNER"
  show "s i = Some 0 \<or> t i = Some 0"
  proof (rule ccontr)
    assume "\<not> (s i = Some 0 \<or> t i = Some 0)"
    then have ic: "\<And>a b. ignored_corner hodo i a b edges1 edges2 = Inr False"
      by (simp add: ignored_corner_def)
    from r show False
      using classify_tangent_not_ignored[of curv i]
      by (auto simp add: classify_intersection_def ic Let_def
               split: if_splits sum.splits option.splits)
  qed
qed

text \<open>
  Both parts on doctests of \<open>classify_intersection\<close>: the first at \<open>s = 0.25\<close>,
  \<open>t = 0.5\<close>; the eighth, where the edges of two quadratic surfaces meet at
  \<open>s = 0.5\<close>, \<open>t = 0.0\<close> and the corner is ignored.
\<close>

theorem ignored_corner_only_at_start_witness:
  "ignored_corner evaluate_hodograph
      \<lparr>ident = None, index_first = Some 0, s = Some (1 / 4), index_second = Some 0,
       t = Some (1 / 2), interior_curve = None\<rparr>
      (5 / 4, 3 / 4) (2, 1 / 2)
      [Some [(1, 0), (7 / 4, 1 / 4), (2, 1)], None, None]
      [Some [(0, 0), (27 / 16, 1 / 16), (2, 1 / 2)], None, None] = Inr False
   \<and> classify_intersection evaluate_hodograph (\<lambda>ns tangent u. 0)
        \<lparr>ident = None, index_first = Some 0, s = Some (1 / 2), index_second = Some 0,
         t = Some 0, interior_curve = None\<rparr>
        [Some [(1 / 4, 1), (0, 1 / 2), (0, 0)], Some [(0, 0), (1 / 2, 3 / 8), (1, 3 / 4)],
         Some [(1, 3 / 4), (5 / 8, 7 / 8), (1 / 4, 1)]]
        [Some [(1 / 16, 1 / 2), (- (1 / 4), 1), (- 1, 1)],
         Some [(- 1, 1), (- 1, 1 / 2), (- 1, 0)],
         Some [(- 1, 0), (- (1 / 2), 1 / 8), (1 / 16, 1 / 2)]] = Inr IGNORED_CORNER
   \<and> (s \<lparr>ident = None, index_first = Some 0, s = Some (1 / 2), index_second = Some 0,
          t = Some 0, interior_curve = None\<rparr> = Some 0
      \<or> t \<lparr>ident = None, index_first = Some 0, s = Some (1 / 2), index_second = Some 0,
            t = Some 0, interior_curve = None\<rparr> = Some 0)"
proof -
  have ev: "classify_intersection evaluate_hodograph (\<lambda>ns tangent u. 0)
        \<lparr>ident = None, index_first = Some 0, s = Some (1 / 2), index_second = Some 0,
         t = Some 0, interior_curve = None\<rparr>
        [Some [(1 / 4, 1), (0, 1 / 2), (0, 0)], Some [(0, 0), (1 / 2, 3 / 8), (1, 3 / 4)],
         Some [(1, 3 / 4), (5 / 8, 7 / 8), (1 / 4, 1)]]
        [Some [(1 / 16, 1 / 2), (- (1 / 4), 1), (- 1, 1)],
         Some [(- 1, 1), (- 1, 1 / 2), (- 1, 0)],
         Some [(- 1, 0), (- (1 / 2), 1 / 8), (1 / 16, 1 / 2)]] = Inr IGNORED_CORNER"
    by (simp add: classify_intersection_def edge_nodes_def prev_edge_nodes_def tuple_get_def
          ignored_corner_def ignored_edge_corner_def evaluate_hodograph_def cross_product_def)
  show ?thesis
    using ev
      ignored_corner_only_at_start
        [of "\<lparr>ident = None, index_first = Some 0, s = Some (1 / 4), index_second = Some 0,
              t = Some (1 / 2), interior_curve = None\<rparr>"
            evaluate_hodograph "(5 / 4, 3 / 4)" "(2, 1 / 2)"
            "[Some [(1, 0), (7 / 4, 1 / 4), (2, 1)], None, None]"
            "[Some [(0, 0), (27 / 16, 1 / 16), (2, 1 / 2)], None, None]"
            "\<lambda>ns tangent u. 0"]
      ignored_corner_only_at_start
        [of "\<lparr>ident = None, index_first = Some 0, s = Some (1 / 2), index_second = Some 0,
              t = Some 0, interior_curve = None\<rparr>"
            evaluate_hodograph "(0, 0)" "(0, 0)"
            "[Some [(1 / 4, 1), (0, 1 / 2), (0, 0)], Some [(0, 0), (1 / 2, 3 / 8), (1, 3 / 4)],
              Some [(1, 3 / 4), (5 / 8, 7 / 8), (1 / 4, 1)]]"
            "[Some [(1 / 16, 1 / 2), (- (1 / 4), 1), (- 1, 1)],
              Some [(- 1, 1), (- 1, 1 / 2), (- 1, 0)],
              Some [(- 1, 0), (- (1 / 2), 1 / 8), (1 / 16, 1 / 2)]]"
            "\<lambda>ns tangent u. 0"]
    by simp
qed

section \<open>Properties of the assembler\<close>

lemma distinct_set_singleton: "distinct ys \<Longrightarrow> set ys = {c} \<Longrightarrow> ys = [c]"
proof (cases ys)
  case Nil
  assume "set ys = {c}"
  with Nil show ?thesis by simp
next
  case (Cons y ys')
  assume d: "distinct ys" and st: "set ys = {c}"
  from st Cons have yc: "y = c" by auto
  from st Cons have sub: "set ys' \<subseteq> {c}" by auto
  from d Cons yc have "c \<notin> set ys'" by simp
  with sub have "ys' = []" by (cases ys') auto
  then show ?thesis using Cons yc by simp
qed

lemma remdups_singleton:
  "remdups (map f xs) = [c] \<longleftrightarrow> xs \<noteq> [] \<and> (\<forall>x \<in> set xs. f x = c)"
proof
  assume h: "remdups (map f xs) = [c]"
  then have "set (remdups (map f xs)) = {c}" by simp
  then have "f ` set xs = {c}" by simp
  then show "xs \<noteq> [] \<and> (\<forall>x \<in> set xs. f x = c)" by auto
next
  assume h: "xs \<noteq> [] \<and> (\<forall>x \<in> set xs. f x = c)"
  then have "set (remdups (map f xs)) = {c}" by (cases xs) auto
  then show "remdups (map f xs) = [c]"
    by (rule distinct_set_singleton[OF distinct_remdups])
qed

lemma basic_interior_combine_none:
  "\<forall>i \<in> set ints. \<not> acceptable i \<Longrightarrow> basic_interior_combine spec ints s1 e1 s2 e2 m = Inr []"
proof -
  assume "\<forall>i \<in> set ints. \<not> acceptable i"
  then have "filter acceptable ints = []" by (simp add: filter_empty_conv)
  then show ?thesis by (simp add: basic_interior_combine_def)
qed

text \<open>
  C5.  With no crossings, \<open>combine_intersections\<close> returns the first surface alone
  when its first corner is located in the second surface, otherwise the second surface
  alone when its first corner is located in the first, and otherwise the empty list.
  The first corner of a surface is the first of its control points.
\<close>

theorem combine_no_intersections:
  assumes "surface_nodes surface1 = corner1 # rest1"
    and "surface_nodes surface2 = corner2 # rest2"
  shows "combine_intersections loc spec [] surface1 edges1 surface2 edges2 =
     Inr (if loc surface2 corner1 \<noteq> None then [WholeSurface surface1]
          else if loc surface1 corner2 \<noteq> None then [WholeSurface surface2]
          else [])"
  using assms by (simp add: combine_intersections_def no_intersections_def)

text \<open>
  A small triangle inside the unit triangle, with a \<open>locate\<close> that finds the point
  \<open>(1/4, 1/4)\<close> in the unit triangle and nothing else: the small triangle is returned.
\<close>

theorem combine_no_intersections_witness:
  "surface_nodes \<lparr>surface_nodes = [(0, 0), (1, 0), (0, 1)]\<rparr> = (0, 0) # [(1, 0), (0, 1)]
   \<and> surface_nodes \<lparr>surface_nodes = [(1 / 4, 1 / 4), (1 / 2, 1 / 4), (1 / 4, 1 / 2)]\<rparr>
       = (1 / 4, 1 / 4) # [(1 / 2, 1 / 4), (1 / 4, 1 / 2)]
   \<and> combine_intersections
        (\<lambda>sf p. if sf = \<lparr>surface_nodes = [(0, 0), (1, 0), (0, 1)]\<rparr> \<and> p = (1 / 4, 1 / 4)
                 then Some (1 / 4, 1 / 4) else None)
        specialize_curve []
        \<lparr>surface_nodes = [(0, 0), (1, 0), (0, 1)]\<rparr> []
        \<lparr>surface_nodes = [(1 / 4, 1 / 4), (1 / 2, 1 / 4), (1 / 4, 1 / 2)]\<rparr> []
      = Inr [WholeSurface \<lparr>surface_nodes = [(1 / 4, 1 / 4), (1 / 2, 1 / 4), (1 / 4, 1 / 2)]\<rparr>]"
  using combine_no_intersections
    [of "\<lparr>surface_nodes = [(0, 0), (1, 0), (0, 1)]\<rparr>" "(0, 0)" "[(1, 0), (0, 1)]"
        "\<lparr>surface_nodes = [(1 / 4, 1 / 4), (1 / 2, 1 / 4), (1 / 4, 1 / 2)]\<rparr>"
        "(1 / 4, 1 / 4)" "[(1 / 2, 1 / 4), (1 / 4, 1 / 2)]"
        "\<lambda>sf p. if sf = \<lparr>surface_nodes = [(0, 0), (1, 0), (0, 1)]\<rparr> \<and> p = (1 / 4, 1 / 4)
                 then Some (1 / 4, 1 / 4) else None"
        specialize_curve "[]" "[]"]
  by simp

text \<open>
  C6.  On a non-empty list of crossings none of which is classified \<open>FIRST\<close> or
  \<open>SECOND\<close>, \<open>combine_intersections\<close> returns what \<open>tangent_only_intersections\<close>
  does: an error when the crossings do not all carry the same classification, the
  empty list when all are \<open>OPPOSED\<close> or all are \<open>IGNORED_CORNER\<close>, the first surface
  alone when all are \<open>TANGENT_FIRST\<close> and the second alone when all are
  \<open>TANGENT_SECOND\<close>.
\<close>

theorem combine_tangent_only:
  assumes "intersections \<noteq> []" and "\<forall>i \<in> set intersections. \<not> acceptable i"
    and "r = combine_intersections loc spec intersections surface1 edges1 surface2 edges2"
  shows "r = tangent_only_intersections intersections surface1 surface2
    \<and> ((\<nexists>c. \<forall>i \<in> set intersections. interior_curve i = c)
          \<longrightarrow> r = Inl (ValueError ''Unexpected value, types should all match''))
    \<and> ((\<forall>i \<in> set intersections. interior_curve i = Some OPPOSED) \<longrightarrow> r = Inr [])
    \<and> ((\<forall>i \<in> set intersections. interior_curve i = Some IGNORED_CORNER) \<longrightarrow> r = Inr [])
    \<and> ((\<forall>i \<in> set intersections. interior_curve i = Some TANGENT_FIRST)
          \<longrightarrow> r = Inr [WholeSurface surface1])
    \<and> ((\<forall>i \<in> set intersections. interior_curve i = Some TANGENT_SECOND)
          \<longrightarrow> r = Inr [WholeSurface surface2])"
proof -
  have r: "r = tangent_only_intersections intersections surface1 surface2"
    using assms by (simp add: combine_intersections_def basic_interior_combine_none)
  have one: "\<And>c. \<forall>i \<in> set intersections. interior_curve i = c
                \<Longrightarrow> remdups (map interior_curve intersections) = [c]"
    using assms(1) by (simp add: remdups_singleton)
  have none: "(\<nexists>c. \<forall>i \<in> set intersections. interior_curve i = c)
                \<Longrightarrow> r = Inl (ValueError ''Unexpected value, types should all match'')"
  proof -
    assume h: "\<nexists>c. \<forall>i \<in> set intersections. interior_curve i = c"
    have "\<And>c. remdups (map interior_curve intersections) \<noteq> [c]"
      using h by (auto simp: remdups_singleton)
    then show ?thesis
      unfolding r tangent_only_intersections_def
      by (cases "remdups (map interior_curve intersections)" rule: list.exhaust;
          cases "tl (remdups (map interior_curve intersections))") auto
  qed
  show ?thesis
    using r none by (auto simp: tangent_only_intersections_def dest!: one)
qed

text \<open>
  Two crossings, both \<open>TANGENT_FIRST\<close>: the first surface is returned.
\<close>

theorem combine_tangent_only_witness:
  "[\<lparr>ident = Some 0, index_first = Some 0, s = Some (1 / 2), index_second = Some 1,
      t = Some (1 / 2), interior_curve = Some TANGENT_FIRST\<rparr>,
     \<lparr>ident = Some 1, index_first = Some 1, s = Some (1 / 4), index_second = Some 2,
      t = Some (3 / 4), interior_curve = Some TANGENT_FIRST\<rparr>] \<noteq> []
   \<and> \<not> acceptable \<lparr>ident = Some 0, index_first = Some 0, s = Some (1 / 2), index_second = Some 1,
      t = Some (1 / 2), interior_curve = Some TANGENT_FIRST\<rparr>
   \<and> \<not> acceptable \<lparr>ident = Some 1, index_first = Some 1, s = Some (1 / 4), index_second = Some 2,
      t = Some (3 / 4), interior_curve = Some TANGENT_FIRST\<rparr>
   \<and> combine_intersections (\<lambda>sf p. None) specialize_curve
        [\<lparr>ident = Some 0, index_first = Some 0, s = Some (1 / 2), index_second = Some 1,
      t = Some (1 / 2), interior_curve = Some TANGENT_FIRST\<rparr>,
     \<lparr>ident = Some 1, index_first = Some 1, s = Some (1 / 4), index_second = Some 2,
      t = Some (3 / 4), interior_curve = Some TANGENT_FIRST\<rparr>]
        \<lparr>surface_nodes = [(0, 0), (1, 0), (0, 1)]\<rparr> []
        \<lparr>surface_nodes = [(0, 0), (2, 0), (0, 2)]\<rparr> []
      = Inr [WholeSurface \<lparr>surface_nodes = [(0, 0), (1, 0), (0, 1)]\<rparr>]"
proof -
  let ?L = "[\<lparr>ident = Some 0, index_first = Some 0, s = Some (1 / 2), index_second = Some 1,
      t = Some (1 / 2), interior_curve = Some TANGENT_FIRST\<rparr>,
     \<lparr>ident = Some 1, index_first = Some 1, s = Some (1 / 4), index_second = Some 2,
      t = Some (3 / 4), interior_curve = Some TANGENT_FIRST\<rparr>]"
  have ne: "?L \<noteq> []" by simp
  have a: "\<forall>i \<in> set ?L. \<not> acceptable i"
    by (simp add: acceptable_def)
  have b: "\<forall>i \<in> set ?L. interior_curve i = Some TANGENT_FIRST"
    by simp
  note all = combine_tangent_only [OF ne a refl, of "\<lambda>sf p. None" specialize_curve
        "\<lparr>surface_nodes = [(0, 0), (1, 0), (0, 1)]\<rparr>" "[]"
        "\<lparr>surface_nodes = [(0, 0), (2, 0), (0, 2)]\<rparr>" "[]"]
  have c: "combine_intersections (\<lambda>sf p. None) specialize_curve ?L
        \<lparr>surface_nodes = [(0, 0), (1, 0), (0, 1)]\<rparr> []
        \<lparr>surface_nodes = [(0, 0), (2, 0), (0, 2)]\<rparr> []
      = Inr [WholeSurface \<lparr>surface_nodes = [(0, 0), (1, 0), (0, 1)]\<rparr>]"
    using all [THEN conjunct2, THEN conjunct2, THEN conjunct2, THEN conjunct2, THEN conjunct1] b
    by (rule mp)
  show ?thesis using ne a c by simp
qed

lemma walk_length:
  "walk start m ints nxt ee u = Inr (ee', u') \<Longrightarrow> int (length ee') \<le> max m (int (length ee))"
proof (induction start m ints nxt ee u rule: walk.induct)
  case (1 start max_edges intersections next_node edge_ends unused)
  show ?case
  proof (cases "is_same next_node start")
    case True
    with "1.prems" show ?thesis by simp
  next
    case False
    note ns = this
    from "1.prems" ns obtain curr_node unused1 where
      tf: "to_front next_node intersections unused = Inr (curr_node, unused1)"
      by (auto split: sum.splits)
    show ?thesis
    proof (cases "is_same curr_node start")
      case True
      with "1.prems" ns tf show ?thesis by simp
    next
      case False
      note cs = this
      from "1.prems" ns tf cs obtain next_node' unused2 where
        gn: "get_next curr_node intersections unused1 = Inr (next_node', unused2)"
        by (auto split: sum.splits)
      from "1.prems" ns tf cs gn have
        le: "\<not> int (length (edge_ends @ [(curr_node, next_node')])) > max_edges"
        and w: "walk start max_edges intersections next_node'
                  (edge_ends @ [(curr_node, next_node')]) unused2 = Inr (ee', u')"
        by (auto simp: Let_def split: if_splits)
      from "1.IH"[OF ns tf refl cs gn refl refl le w] le show ?thesis by simp
    qed
  qed
qed

lemma edge_infos_length: "edge_infos ee = Inr ds \<Longrightarrow> length ds = length ee"
  by (induction ee arbitrary: ds) (auto split: sum.splits)

lemma specialized_edges_length:
  "specialized_edges spec e1 e2 ds = Inr es \<Longrightarrow> length es = length ds"
  by (induction ds arbitrary: es) (auto split: sum.splits option.splits)

lemma surface_info_length:
  "d \<in> set FIRST_SURFACE_INFO \<or> d \<in> set SECOND_SURFACE_INFO \<Longrightarrow> length d = 3"
  by (auto simp: FIRST_SURFACE_INFO_def SECOND_SURFACE_INFO_def)

lemma make_intersection_sides:
  "make_intersection spec d s1 e1 s2 e2 = Inr sh \<Longrightarrow> num_sides sh = length d"
  using surface_info_length[of d]
  by (auto simp: make_intersection_def dest: specialized_edges_length split: if_splits sum.splits)

lemma trace_loop_sides:
  assumes "1 \<le> m" and "trace_loop spec ints s1 e1 s2 e2 m unused = Inr (sh, u')"
  shows "int (num_sides sh) \<le> m"
proof -
  from assms(2) obtain next_node unused1 where
    gn: "get_next (last unused) ints (butlast unused) = Inr (next_node, unused1)"
    by (auto simp: trace_loop_def Let_def split: sum.splits)
  from assms(2) gn obtain edge_ends where
    w: "walk (last unused) m ints next_node [(last unused, next_node)] unused1 = Inr (edge_ends, u')"
    by (auto simp: trace_loop_def Let_def simp del: walk.simps split: sum.splits)
  from assms(2) gn w obtain d where
    ei: "edge_infos edge_ends = Inr d" and mi: "make_intersection spec d s1 e1 s2 e2 = Inr sh"
    by (auto simp: trace_loop_def Let_def simp del: walk.simps split: sum.splits)
  from walk_length[OF w] assms(1) have "int (length edge_ends) \<le> m" by simp
  with edge_infos_length[OF ei] make_intersection_sides[OF mi] show ?thesis by simp
qed

lemma basic_interior_combine_loop_sides:
  "basic_interior_combine_loop spec ints s1 e1 s2 e2 m unused result = Inr result'
     \<Longrightarrow> 1 \<le> m
     \<Longrightarrow> \<forall>sh \<in> set result. int (num_sides sh) \<le> m
     \<Longrightarrow> \<forall>sh \<in> set result'. int (num_sides sh) \<le> m"
proof (induction spec ints s1 e1 s2 e2 m unused result rule: basic_interior_combine_loop.induct)
  case (1 spec intersections surface1 edges1 surface2 edges2 max_edges unused result)
  show ?case
  proof (cases "unused = []")
    case True
    with "1.prems" show ?thesis by simp
  next
    case False
    from "1.prems"(1) False obtain sh unused' where
      tl: "trace_loop spec intersections surface1 edges1 surface2 edges2 max_edges unused
             = Inr (sh, unused')"
      by (auto split: sum.splits)
    from "1.prems"(1) False tl have
      r: "basic_interior_combine_loop spec intersections surface1 edges1 surface2 edges2
            max_edges unused' (result @ [sh]) = Inr result'"
      by simp
    have "int (num_sides sh) \<le> max_edges"
      using trace_loop_sides[OF "1.prems"(2) tl] .
    hence "\<forall>x \<in> set (result @ [sh]). int (num_sides x) \<le> max_edges"
      using "1.prems"(3) by auto
    from "1.IH"[OF False tl refl r "1.prems"(2) this] show ?thesis .
  qed
qed

lemma basic_interior_combine_sides:
  "1 \<le> m \<Longrightarrow> basic_interior_combine spec ints s1 e1 s2 e2 m = Inr result
   \<Longrightarrow> sh \<in> set result \<Longrightarrow> int (num_sides sh) \<le> m"
  using basic_interior_combine_loop_sides[of spec ints s1 e1 s2 e2 m "filter acceptable ints" "[]" result]
  by (simp add: basic_interior_combine_def)

lemma no_intersections_sides:
  "no_intersections loc s1 s2 = Inr result \<Longrightarrow> sh \<in> set result \<Longrightarrow> num_sides sh = 3"
  by (auto simp: no_intersections_def split: list.splits if_splits)

lemma tangent_only_sides:
  "tangent_only_intersections ints s1 s2 = Inr result \<Longrightarrow> sh \<in> set result \<Longrightarrow> num_sides sh = 3"
  by (auto simp: tangent_only_intersections_def split: list.splits if_splits)

lemma combine_intersections_sides:
  assumes "combine_intersections loc spec ints s1 e1 s2 e2 = Inr result" "sh \<in> set result"
  shows "num_sides sh \<le> 10"
proof (cases "ints = []")
  case True
  with assms no_intersections_sides[of loc s1 s2 result sh] show ?thesis
    by (simp add: combine_intersections_def)
next
  case False
  with assms(1) obtain r where b: "basic_interior_combine spec ints s1 e1 s2 e2 10 = Inr r"
    by (auto simp: combine_intersections_def split: sum.splits)
  show ?thesis
  proof (cases "r = []")
    case True
    with assms False b tangent_only_sides[of ints s1 s2 result sh] show ?thesis
      by (simp add: combine_intersections_def)
  next
    case False
    with assms \<open>ints \<noteq> []\<close> b have "result = r" by (simp add: combine_intersections_def)
    with basic_interior_combine_sides[OF _ b, of sh] assms(2) show ?thesis by simp
  qed
qed

lemma valid_params:
  "valid_intersections ints \<Longrightarrow> x \<in> set ints
   \<Longrightarrow> \<exists>sv tv. s x = Some sv \<and> t x = Some tv \<and> sv \<noteq> 1 \<and> tv \<noteq> 1"
proof -
  assume "valid_intersections ints" and "x \<in> set ints"
  then have a: "in_unit_interval (s x)" and b: "in_unit_interval (t x)"
    by (simp_all add: valid_intersections_def)
  from a obtain sv where sv: "s x = Some sv" "sv \<noteq> 1"
    by (cases "s x") (auto simp: in_unit_interval_def)
  from b obtain tv where tv: "t x = Some tv" "tv \<noteq> 1"
    by (cases "t x") (auto simp: in_unit_interval_def)
  from sv tv show ?thesis by blast
qed

lemma valid_same:
  "valid_intersections ints \<Longrightarrow> x \<in> set ints \<Longrightarrow> y \<in> set ints \<Longrightarrow> is_same x y \<Longrightarrow> x = y"
  by (auto simp: valid_intersections_def is_same_def)

lemma get_next_first_loop_result:
  "get_next_first_loop idx sv ints along = Inr (Some a)
   \<Longrightarrow> along = Some a \<or> (a \<in> set ints \<and> py_gt (s a) sv = Inr True)"
proof (induction ints arbitrary: along)
  case Nil
  then show ?case by simp
next
  case (Cons other_int rest)
  show ?case
  proof (cases "index_first other_int = idx \<and> py_gt (s other_int) sv = Inr True")
    case False
    with Cons.prems have "get_next_first_loop idx sv rest along = Inr (Some a)"
      by (auto split: sum.splits if_splits)
    from Cons.IH[OF this] show ?thesis by auto
  next
    case True
    with Cons.prems obtain along' where
      r: "get_next_first_loop idx sv rest along' = Inr (Some a)"
      and al: "along' = along \<or> along' = Some other_int"
      by (auto split: sum.splits if_splits option.splits)
    from Cons.IH[OF r] al True show ?thesis by auto
  qed
qed

lemma get_next_second_loop_result:
  "get_next_second_loop idx tv ints along = Inr (Some a)
   \<Longrightarrow> along = Some a \<or> (a \<in> set ints \<and> py_gt (t a) tv = Inr True)"
proof (induction ints arbitrary: along)
  case Nil
  then show ?case by simp
next
  case (Cons other_int rest)
  show ?case
  proof (cases "index_second other_int = idx \<and> py_gt (t other_int) tv = Inr True")
    case False
    with Cons.prems have "get_next_second_loop idx tv rest along = Inr (Some a)"
      by (auto split: sum.splits if_splits)
    from Cons.IH[OF this] show ?thesis by auto
  next
    case True
    with Cons.prems obtain along' where
      r: "get_next_second_loop idx tv rest along' = Inr (Some a)"
      and al: "along' = along \<or> along' = Some other_int"
      by (auto split: sum.splits if_splits option.splits)
    from Cons.IH[OF r] al True show ?thesis by auto
  qed
qed

lemma py_gt_neq: "py_gt a b = Inr True \<Longrightarrow> a \<noteq> b"
  by (auto simp: py_gt_def split: option.splits)

text \<open>The node after \<open>start\<close>: another entry of the list, or the end of the edge.\<close>

lemma get_next_other:
  assumes "get_next start ints u = Inr (nxt, u')"
  shows "(nxt \<in> set ints \<and> nxt \<noteq> start)
    \<or> (interior_curve start = Some FIRST
        \<and> nxt = \<lparr>ident = None, index_first = index_first start, s = Some 1,
                  index_second = None, t = None, interior_curve = Some FIRST\<rparr>)
    \<or> (interior_curve start = Some SECOND
        \<and> nxt = \<lparr>ident = None, index_first = None, s = None,
                  index_second = index_second start, t = Some 1,
                  interior_curve = Some SECOND\<rparr>)"
proof (cases "interior_curve start = Some FIRST")
  case True
  with assms have g: "get_next_first start ints = Inr nxt"
    by (auto simp: get_next_def split: sum.splits)
  show ?thesis
  proof (cases "get_next_first_loop (index_first start) (s start) ints None")
    case (Inl e)
    with g show ?thesis by (simp add: get_next_first_def)
  next
    case (Inr r)
    show ?thesis
    proof (cases r)
      case None
      with Inr g True show ?thesis by (auto simp: get_next_first_def)
    next
      case (Some a)
      with Inr g have na: "nxt = a" by (simp add: get_next_first_def)
      from get_next_first_loop_result[of "index_first start" "s start" ints None a] Inr Some
      have "a \<in> set ints" "py_gt (s a) (s start) = Inr True" by auto
      with py_gt_neq[of "s a" "s start"] na show ?thesis by auto
    qed
  qed
next
  case False
  note nf = this
  show ?thesis
  proof (cases "interior_curve start = Some SECOND")
    case False
    with nf assms show ?thesis by (simp add: get_next_def)
  next
    case True
    with nf assms have g: "get_next_second start ints = Inr nxt"
      by (auto simp: get_next_def split: sum.splits)
    show ?thesis
    proof (cases "get_next_second_loop (index_second start) (t start) ints None")
      case (Inl e)
      with g show ?thesis by (simp add: get_next_second_def)
    next
      case (Inr r)
      show ?thesis
      proof (cases r)
        case None
        with Inr g True show ?thesis by (auto simp: get_next_second_def)
      next
        case (Some a)
        with Inr g have na: "nxt = a" by (simp add: get_next_second_def)
        from get_next_second_loop_result[of "index_second start" "t start" ints None a] Inr Some
        have "a \<in> set ints" "py_gt (t a) (t start) = Inr True" by auto
        with py_gt_neq[of "t a" "t start"] na show ?thesis by auto
      qed
    qed
  qed
qed

lemma find_existing_result:
  "find_existing x ints = x
   \<or> (find_existing x ints \<in> set ints
      \<and> ((s (find_existing x ints) = s x \<and> index_first (find_existing x ints) = index_first x)
         \<or> (t (find_existing x ints) = t x
            \<and> index_second (find_existing x ints) = index_second x)))"
  by (induction ints) auto

lemma next_mod_neq: "(i + 1) mod 3 \<noteq> (i :: int)"
  by presburger


lemma get_next_not_start:
  assumes v: "valid_intersections ints" and st: "start \<in> set ints"
    and gn: "get_next start ints u = Inr (nxt, u1)"
  shows "\<not> is_same nxt start"
  using get_next_other[OF gn] valid_same[OF v _ st, of nxt]
  by (auto simp: is_same_def)

lemma to_front_not_start:
  assumes v: "valid_intersections ints" and st: "start \<in> set ints"
    and gn: "get_next start ints u = Inr (nxt, u1)"
    and tf: "to_front nxt ints u1 = Inr (cnode, u2)"
  shows "\<not> is_same nxt start \<and> \<not> is_same cnode start"
proof -
  from valid_params[OF v st] obtain sv tv where
    p: "s start = Some sv" "t start = Some tv" by blast
  from get_next_other[OF gn] consider
    (other) "nxt \<in> set ints" "nxt \<noteq> start"
    | (first) "interior_curve start = Some FIRST"
        "nxt = \<lparr>ident = None, index_first = index_first start, s = Some 1,
                index_second = None, t = None, interior_curve = Some FIRST\<rparr>"
    | (second) "interior_curve start = Some SECOND"
        "nxt = \<lparr>ident = None, index_first = None, s = None,
                index_second = index_second start, t = Some 1,
                interior_curve = Some SECOND\<rparr>"
    by blast
  then show ?thesis
  proof cases
    case other
    from valid_same[OF v other(1) st] other(2) have n: "\<not> is_same nxt start" by blast
    from valid_params[OF v other(1)] obtain a b where
      "s nxt = Some a" "t nxt = Some b" "a \<noteq> 1" "b \<noteq> 1" by blast
    with tf have "cnode = nxt" by (auto simp: to_front_def Let_def)
    with n show ?thesis by simp
  next
    case first
    have n: "\<not> is_same nxt start" using first(2) by (simp add: is_same_def)
    from tf first(2) obtain i where i: "index_first start = Some i"
      by (cases "index_first start") (auto simp: to_front_def next_index_def)
    let ?x = "\<lparr>ident = None, index_first = Some ((i + 1) mod 3), s = Some 0,
               index_second = None, t = None, interior_curve = Some FIRST\<rparr>"
    from tf first(2) i have c: "cnode = find_existing ?x ints"
      by (auto simp: to_front_def next_index_def Let_def)
    have "\<not> is_same cnode start"
    proof
      assume same: "is_same cnode start"
      from find_existing_result[of ?x ints] c consider
        "cnode = ?x"
        | "cnode \<in> set ints" "(s cnode = s ?x \<and> index_first cnode = index_first ?x)
             \<or> (t cnode = t ?x \<and> index_second cnode = index_second ?x)"
        by auto
      then show False
      proof cases
        case 1
        with same show False by (simp add: is_same_def)
      next
        case 2
        from valid_same[OF v 2(1) st same] have "cnode = start" .
        with 2(2) p i next_mod_neq[of i] show False by auto
      qed
    qed
    with n show ?thesis by simp
  next
    case second
    have n: "\<not> is_same nxt start" using second(2) by (simp add: is_same_def)
    from tf second(2) obtain j where j: "index_second start = Some j"
      by (cases "index_second start") (auto simp: to_front_def next_index_def)
    let ?x = "\<lparr>ident = None, index_first = None, s = None,
               index_second = Some ((j + 1) mod 3), t = Some 0,
               interior_curve = Some SECOND\<rparr>"
    from tf second(2) j have c: "cnode = find_existing ?x ints"
      by (auto simp: to_front_def next_index_def Let_def)
    have "\<not> is_same cnode start"
    proof
      assume same: "is_same cnode start"
      from find_existing_result[of ?x ints] c consider
        "cnode = ?x"
        | "cnode \<in> set ints" "(s cnode = s ?x \<and> index_first cnode = index_first ?x)
             \<or> (t cnode = t ?x \<and> index_second cnode = index_second ?x)"
        by auto
      then show False
      proof cases
        case 1
        with same show False by (simp add: is_same_def)
      next
        case 2
        from valid_same[OF v 2(1) st same] have "cnode = start" .
        with 2(2) p j next_mod_neq[of j] show False by auto
      qed
    qed
    with n show ?thesis by simp
  qed
qed

lemma walk_raises:
  assumes "\<not> is_same next_node start"
    and "to_front next_node intersections unused = Inr (curr_node, unused1)"
    and "\<not> is_same curr_node start"
    and "get_next curr_node intersections unused1 = Inr (next_node', unused2)"
    and "max_edges < int (length (edge_ends @ [(curr_node, next_node')]))"
  shows "walk start max_edges intersections next_node edge_ends unused
           = Inl (RuntimeError ''Unexpected number of edges'')"
  using assms by (subst walk.simps) (simp add: Let_def)

lemma trace_loop_raises:
  assumes v: "valid_intersections ints" and st: "last unused \<in> set ints" and m: "max_edges \<le> 1"
  shows "\<exists>e. trace_loop spec ints s1 e1 s2 e2 max_edges unused = Inl e"
proof (cases "get_next (last unused) ints (butlast unused)")
  case (Inl e)
  then show ?thesis by (simp add: trace_loop_def)
next
  case (Inr r)
  obtain nxt u1 where r: "r = (nxt, u1)" by (cases r)
  note gn = Inr[unfolded r]
  have "\<exists>e. walk (last unused) max_edges ints nxt [(last unused, nxt)] u1 = Inl e"
  proof (cases "to_front nxt ints u1")
    case (Inl e)
    with get_next_not_start[OF v st gn] show ?thesis by (subst walk.simps) simp
  next
    case tf: (Inr r2)
    obtain cnode u2 where r2: "r2 = (cnode, u2)" by (cases r2)
    note tf' = tf[unfolded r2]
    from to_front_not_start[OF v st gn tf'] have
      n1: "\<not> is_same nxt (last unused)" and n2: "\<not> is_same cnode (last unused)" by simp_all
    show ?thesis
    proof (cases "get_next cnode ints u2")
      case (Inl e)
      with n1 n2 tf' show ?thesis by (subst walk.simps) simp
    next
      case g2: (Inr r3)
      obtain nxt' u3 where r3: "r3 = (nxt', u3)" by (cases r3)
      have "max_edges < int (length ([(last unused, nxt)] @ [(cnode, nxt')]))" using m by simp
      from walk_raises[OF n1 tf' n2 g2[unfolded r3] this] show ?thesis by blast
    qed
  qed
  then obtain e where "walk (last unused) max_edges ints nxt [(last unused, nxt)] u1 = Inl e" ..
  with gn show ?thesis by (simp add: trace_loop_def del: walk.simps)
qed

lemma basic_interior_combine_raises:
  assumes v: "valid_intersections ints" and m: "max_edges \<le> 1"
    and a: "filter acceptable ints \<noteq> []"
  shows "\<exists>e. basic_interior_combine spec ints s1 e1 s2 e2 max_edges = Inl e"
proof -
  have "last (filter acceptable ints) \<in> set (filter acceptable ints)"
    using a by (rule last_in_set)
  then have st: "last (filter acceptable ints) \<in> set ints" by auto
  from trace_loop_raises[OF v st m, of spec s1 e1 s2 e2] obtain e where
    "trace_loop spec ints s1 e1 s2 e2 max_edges (filter acceptable ints) = Inl e" ..
  with a show ?thesis
    by (subst basic_interior_combine_def, subst basic_interior_combine_loop.simps) simp
qed

text \<open>
  C7.  The assembler receives crossings that satisfy the invariant of the data model
  (\<open>valid_intersections\<close>), and for such a list, whatever the configured maximum is,
  every element of the result of \<open>basic_interior_combine\<close> has at most that many
  edges (a whole surface counts its three edges, a curved polygon the edges it holds);
  for a maximum of at least 1 this holds for every list.  Every element of the result
  of \<open>combine_intersections\<close>, which uses the default 10, has at most 10 edges.  In
  the inner loop, an appended pair that takes \<open>edge_ends\<close> past the maximum raises the
  \<open>RuntimeError\<close>, so when the loop returns \<open>edge_ends\<close> is no longer than the
  maximum (or than it was on entry); and with a maximum of 1 or less, a valid list
  with a crossing to start from makes the assembler raise instead of returning.
\<close>

theorem assembler_edge_bound:
  "((1 \<le> max_edges \<or> valid_intersections intersections)
      \<and> basic_interior_combine spec intersections surface1 edges1 surface2 edges2 max_edges
           = Inr result
      \<and> sh \<in> set result
     \<longrightarrow> int (num_sides sh) \<le> max_edges)
   \<and> (combine_intersections loc spec intersections surface1 edges1 surface2 edges2 = Inr result
      \<and> sh \<in> set result
     \<longrightarrow> num_sides sh \<le> 10)
   \<and> (\<not> is_same next_node start
      \<and> to_front next_node intersections unused = Inr (curr_node, unused1)
      \<and> \<not> is_same curr_node start
      \<and> get_next curr_node intersections unused1 = Inr (next_node', unused2)
      \<and> max_edges < int (length edge_ends) + 1
     \<longrightarrow> walk start max_edges intersections next_node edge_ends unused
           = Inl (RuntimeError ''Unexpected number of edges''))
   \<and> (walk start max_edges intersections next_node edge_ends unused = Inr (edge_ends', unused')
     \<longrightarrow> int (length edge_ends') \<le> max max_edges (int (length edge_ends)))
   \<and> (valid_intersections intersections \<and> max_edges \<le> 1
      \<and> (\<exists>i \<in> set intersections. acceptable i)
     \<longrightarrow> (\<exists>e. basic_interior_combine spec intersections surface1 edges1 surface2 edges2
                 max_edges = Inl e))"
proof (intro conjI impI)
  assume h: "(1 \<le> max_edges \<or> valid_intersections intersections)
      \<and> basic_interior_combine spec intersections surface1 edges1 surface2 edges2 max_edges
           = Inr result
      \<and> sh \<in> set result"
  show "int (num_sides sh) \<le> max_edges"
  proof (cases "1 \<le> max_edges")
    case True
    with h show ?thesis using basic_interior_combine_sides by blast
  next
    case False
    with h have v: "valid_intersections intersections" and m: "max_edges \<le> 1" by auto
    show ?thesis
    proof (cases "filter acceptable intersections = []")
      case True
      then have "\<forall>i \<in> set intersections. \<not> acceptable i" by (simp add: filter_empty_conv)
      from basic_interior_combine_none[OF this] h show ?thesis by auto
    next
      case False
      from basic_interior_combine_raises[OF v m False, of spec surface1 edges1 surface2 edges2]
      obtain e where "basic_interior_combine spec intersections surface1 edges1 surface2 edges2
                        max_edges = Inl e" ..
      with h show ?thesis by simp
    qed
  qed
next
  assume "combine_intersections loc spec intersections surface1 edges1 surface2 edges2 = Inr result
      \<and> sh \<in> set result"
  then show "num_sides sh \<le> 10"
    using combine_intersections_sides by blast
next
  assume "\<not> is_same next_node start
      \<and> to_front next_node intersections unused = Inr (curr_node, unused1)
      \<and> \<not> is_same curr_node start
      \<and> get_next curr_node intersections unused1 = Inr (next_node', unused2)
      \<and> max_edges < int (length edge_ends) + 1"
  then show "walk start max_edges intersections next_node edge_ends unused
           = Inl (RuntimeError ''Unexpected number of edges'')"
    using walk_raises[of next_node start intersections unused curr_node unused1 next_node'
                         unused2 max_edges edge_ends]
    by simp
next
  assume "walk start max_edges intersections next_node edge_ends unused = Inr (edge_ends', unused')"
  then show "int (length edge_ends') \<le> max max_edges (int (length edge_ends))"
    by (rule walk_length)
next
  assume h: "valid_intersections intersections \<and> max_edges \<le> 1
      \<and> (\<exists>i \<in> set intersections. acceptable i)"
  then have "filter acceptable intersections \<noteq> []" by (auto simp: filter_empty_conv)
  with h show "\<exists>e. basic_interior_combine spec intersections surface1 edges1 surface2 edges2
                 max_edges = Inl e"
    using basic_interior_combine_raises by blast
qed

text \<open>
  C7 on two overlapping triangles, the second the first moved by \<open>(2, -1)\<close>: the edge
  from \<open>(2, 3)\<close> to \<open>(2, -1)\<close> crosses the first triangle's edges at \<open>(2, 0)\<close>
  (classified \<open>FIRST\<close>) and at \<open>(2, 2)\<close> (classified \<open>SECOND\<close>).  With the default
  maximum the assembler returns the triangle \<open>(2, 2)\<close>, \<open>(2, 0)\<close>, \<open>(4, 0)\<close> as a
  polygon with three edges; with a maximum of 2 the third pair raises the
  \<open>RuntimeError\<close>, and with a maximum of 1 the second pair does.
\<close>

theorem assembler_edge_bound_witness:
  "valid_intersections [\<lparr>ident = Some 0, index_first = Some 0, s = Some (1 / 2), index_second = Some 2,
        t = Some (3 / 4), interior_curve = Some FIRST\<rparr>, \<lparr>ident = Some 1, index_first = Some 1, s = Some (1 / 2), index_second = Some 2,
        t = Some (1 / 4), interior_curve = Some SECOND\<rparr>]
   \<and> basic_interior_combine specialize_curve [\<lparr>ident = Some 0, index_first = Some 0, s = Some (1 / 2), index_second = Some 2,
        t = Some (3 / 4), interior_curve = Some FIRST\<rparr>, \<lparr>ident = Some 1, index_first = Some 1, s = Some (1 / 2), index_second = Some 2,
        t = Some (1 / 4), interior_curve = Some SECOND\<rparr>] \<lparr>surface_nodes = [(0, 0), (4, 0), (0, 4)]\<rparr> [Some [(0, 0), (4, 0)], Some [(4, 0), (0, 4)], Some [(0, 4), (0, 0)]] \<lparr>surface_nodes = [(2, - 1), (6, - 1), (2, 3)]\<rparr> [Some [(2, - 1), (6, - 1)], Some [(6, - 1), (2, 3)], Some [(2, 3), (2, - 1)]] 10 = Inr [CurvedPolygon [[(2, 2), (2, 0)], [(2, 0), (4, 0)], [(4, 0), (2, 2)]]]
   \<and> int (num_sides (CurvedPolygon [[(2, 2), (2, 0)], [(2, 0), (4, 0)], [(4, 0), (2, 2)]])) \<le> 10
   \<and> combine_intersections (\<lambda>sf p. None) specialize_curve [\<lparr>ident = Some 0, index_first = Some 0, s = Some (1 / 2), index_second = Some 2,
        t = Some (3 / 4), interior_curve = Some FIRST\<rparr>, \<lparr>ident = Some 1, index_first = Some 1, s = Some (1 / 2), index_second = Some 2,
        t = Some (1 / 4), interior_curve = Some SECOND\<rparr>] \<lparr>surface_nodes = [(0, 0), (4, 0), (0, 4)]\<rparr> [Some [(0, 0), (4, 0)], Some [(4, 0), (0, 4)], Some [(0, 4), (0, 0)]] \<lparr>surface_nodes = [(2, - 1), (6, - 1), (2, 3)]\<rparr> [Some [(2, - 1), (6, - 1)], Some [(6, - 1), (2, 3)], Some [(2, 3), (2, - 1)]]
       = Inr [CurvedPolygon [[(2, 2), (2, 0)], [(2, 0), (4, 0)], [(4, 0), (2, 2)]]]
   \<and> num_sides (CurvedPolygon [[(2, 2), (2, 0)], [(2, 0), (4, 0)], [(4, 0), (2, 2)]]) \<le> 10
   \<and> walk \<lparr>ident = Some 1, index_first = Some 1, s = Some (1 / 2), index_second = Some 2,
        t = Some (1 / 4), interior_curve = Some SECOND\<rparr> 2 [\<lparr>ident = Some 0, index_first = Some 0, s = Some (1 / 2), index_second = Some 2,
        t = Some (3 / 4), interior_curve = Some FIRST\<rparr>, \<lparr>ident = Some 1, index_first = Some 1, s = Some (1 / 2), index_second = Some 2,
        t = Some (1 / 4), interior_curve = Some SECOND\<rparr>] \<lparr>ident = None, index_first = Some 0, s = Some 1, index_second = None,
        t = None, interior_curve = Some FIRST\<rparr> [(\<lparr>ident = Some 1, index_first = Some 1, s = Some (1 / 2), index_second = Some 2,
        t = Some (1 / 4), interior_curve = Some SECOND\<rparr>, \<lparr>ident = Some 0, index_first = Some 0, s = Some (1 / 2), index_second = Some 2,
        t = Some (3 / 4), interior_curve = Some FIRST\<rparr>), (\<lparr>ident = Some 0, index_first = Some 0, s = Some (1 / 2), index_second = Some 2,
        t = Some (3 / 4), interior_curve = Some FIRST\<rparr>, \<lparr>ident = None, index_first = Some 0, s = Some 1, index_second = None,
        t = None, interior_curve = Some FIRST\<rparr>)] []
       = Inl (RuntimeError ''Unexpected number of edges'')
   \<and> walk \<lparr>ident = Some 1, index_first = Some 1, s = Some (1 / 2), index_second = Some 2,
        t = Some (1 / 4), interior_curve = Some SECOND\<rparr> 10 [\<lparr>ident = Some 0, index_first = Some 0, s = Some (1 / 2), index_second = Some 2,
        t = Some (3 / 4), interior_curve = Some FIRST\<rparr>, \<lparr>ident = Some 1, index_first = Some 1, s = Some (1 / 2), index_second = Some 2,
        t = Some (1 / 4), interior_curve = Some SECOND\<rparr>] \<lparr>ident = Some 0, index_first = Some 0, s = Some (1 / 2), index_second = Some 2,
        t = Some (3 / 4), interior_curve = Some FIRST\<rparr> [(\<lparr>ident = Some 1, index_first = Some 1, s = Some (1 / 2), index_second = Some 2,
        t = Some (1 / 4), interior_curve = Some SECOND\<rparr>, \<lparr>ident = Some 0, index_first = Some 0, s = Some (1 / 2), index_second = Some 2,
        t = Some (3 / 4), interior_curve = Some FIRST\<rparr>)] [] = Inr ([(\<lparr>ident = Some 1, index_first = Some 1, s = Some (1 / 2), index_second = Some 2,
        t = Some (1 / 4), interior_curve = Some SECOND\<rparr>, \<lparr>ident = Some 0, index_first = Some 0, s = Some (1 / 2), index_second = Some 2,
        t = Some (3 / 4), interior_curve = Some FIRST\<rparr>), (\<lparr>ident = Some 0, index_first = Some 0, s = Some (1 / 2), index_second = Some 2,
        t = Some (3 / 4), interior_curve = Some FIRST\<rparr>, \<lparr>ident = None, index_first = Some 0, s = Some 1, index_second = None,
        t = None, interior_curve = Some FIRST\<rparr>), (\<lparr>ident = None, index_first = Some 1, s = Some 0, index_second = None,
        t = None, interior_curve = Some FIRST\<rparr>, \<lparr>ident = Some 1, index_first = Some 1, s = Some (1 / 2), index_second = Some 2,
        t = Some (1 / 4), interior_curve = Some SECOND\<rparr>)], [])
   \<and> int (length ([(\<lparr>ident = Some 1, index_first = Some 1, s = Some (1 / 2), index_second = Some 2,
        t = Some (1 / 4), interior_curve = Some SECOND\<rparr>, \<lparr>ident = Some 0, index_first = Some 0, s = Some (1 / 2), index_second = Some 2,
        t = Some (3 / 4), interior_curve = Some FIRST\<rparr>), (\<lparr>ident = Some 0, index_first = Some 0, s = Some (1 / 2), index_second = Some 2,
        t = Some (3 / 4), interior_curve = Some FIRST\<rparr>, \<lparr>ident = None, index_first = Some 0, s = Some 1, index_second = None,
        t = None, interior_curve = Some FIRST\<rparr>), (\<lparr>ident = None, index_first = Some 1, s = Some 0, index_second = None,
        t = None, interior_curve = Some FIRST\<rparr>, \<lparr>ident = Some 1, index_first = Some 1, s = Some (1 / 2), index_second = Some 2,
        t = Some (1 / 4), interior_curve = Some SECOND\<rparr>)])) \<le> max 10 (int (length [(\<lparr>ident = Some 1, index_first = Some 1, s = Some (1 / 2), index_second = Some 2,
        t = Some (1 / 4), interior_curve = Some SECOND\<rparr>, \<lparr>ident = Some 0, index_first = Some 0, s = Some (1 / 2), index_second = Some 2,
        t = Some (3 / 4), interior_curve = Some FIRST\<rparr>)]))
   \<and> basic_interior_combine specialize_curve [\<lparr>ident = Some 0, index_first = Some 0, s = Some (1 / 2), index_second = Some 2,
        t = Some (3 / 4), interior_curve = Some FIRST\<rparr>, \<lparr>ident = Some 1, index_first = Some 1, s = Some (1 / 2), index_second = Some 2,
        t = Some (1 / 4), interior_curve = Some SECOND\<rparr>] \<lparr>surface_nodes = [(0, 0), (4, 0), (0, 4)]\<rparr> [Some [(0, 0), (4, 0)], Some [(4, 0), (0, 4)], Some [(0, 4), (0, 0)]] \<lparr>surface_nodes = [(2, - 1), (6, - 1), (2, 3)]\<rparr> [Some [(2, - 1), (6, - 1)], Some [(6, - 1), (2, 3)], Some [(2, 3), (2, - 1)]] 1
       = Inl (RuntimeError ''Unexpected number of edges'')"
proof -
  have v: "valid_intersections [\<lparr>ident = Some 0, index_first = Some 0, s = Some (1 / 2), index_second = Some 2,
        t = Some (3 / 4), interior_curve = Some FIRST\<rparr>, \<lparr>ident = Some 1, index_first = Some 1, s = Some (1 / 2), index_second = Some 2,
        t = Some (1 / 4), interior_curve = Some SECOND\<rparr>]"
    by (simp add: valid_intersections_def in_unit_interval_def)
  have b: "basic_interior_combine specialize_curve [\<lparr>ident = Some 0, index_first = Some 0, s = Some (1 / 2), index_second = Some 2,
        t = Some (3 / 4), interior_curve = Some FIRST\<rparr>, \<lparr>ident = Some 1, index_first = Some 1, s = Some (1 / 2), index_second = Some 2,
        t = Some (1 / 4), interior_curve = Some SECOND\<rparr>] \<lparr>surface_nodes = [(0, 0), (4, 0), (0, 4)]\<rparr> [Some [(0, 0), (4, 0)], Some [(4, 0), (0, 4)], Some [(0, 4), (0, 0)]] \<lparr>surface_nodes = [(2, - 1), (6, - 1), (2, 3)]\<rparr> [Some [(2, - 1), (6, - 1)], Some [(6, - 1), (2, 3)], Some [(2, 3), (2, - 1)]] 10 = Inr [CurvedPolygon [[(2, 2), (2, 0)], [(2, 0), (4, 0)], [(4, 0), (2, 2)]]]"
    by (simp add: basic_interior_combine_def combine_intersections_def acceptable_def
        trace_loop_def get_next_def get_next_first_def get_next_second_def py_gt_def py_lt_def
        discard_def is_same_def to_front_def next_index_def ends_to_curve_def
        make_intersection_def FIRST_SURFACE_INFO_def SECOND_SURFACE_INFO_def edge_nodes_def
        tuple_get_def specialize_curve_def Let_def)
  have c: "combine_intersections (\<lambda>sf p. None) specialize_curve [\<lparr>ident = Some 0, index_first = Some 0, s = Some (1 / 2), index_second = Some 2,
        t = Some (3 / 4), interior_curve = Some FIRST\<rparr>, \<lparr>ident = Some 1, index_first = Some 1, s = Some (1 / 2), index_second = Some 2,
        t = Some (1 / 4), interior_curve = Some SECOND\<rparr>] \<lparr>surface_nodes = [(0, 0), (4, 0), (0, 4)]\<rparr> [Some [(0, 0), (4, 0)], Some [(4, 0), (0, 4)], Some [(0, 4), (0, 0)]] \<lparr>surface_nodes = [(2, - 1), (6, - 1), (2, 3)]\<rparr> [Some [(2, - 1), (6, - 1)], Some [(6, - 1), (2, 3)], Some [(2, 3), (2, - 1)]]
       = Inr [CurvedPolygon [[(2, 2), (2, 0)], [(2, 0), (4, 0)], [(4, 0), (2, 2)]]]"
    by (simp add: basic_interior_combine_def combine_intersections_def acceptable_def
        trace_loop_def get_next_def get_next_first_def get_next_second_def py_gt_def py_lt_def
        discard_def is_same_def to_front_def next_index_def ends_to_curve_def
        make_intersection_def FIRST_SURFACE_INFO_def SECOND_SURFACE_INFO_def edge_nodes_def
        tuple_get_def specialize_curve_def Let_def)
  have w: "walk \<lparr>ident = Some 1, index_first = Some 1, s = Some (1 / 2), index_second = Some 2,
        t = Some (1 / 4), interior_curve = Some SECOND\<rparr> 10 [\<lparr>ident = Some 0, index_first = Some 0, s = Some (1 / 2), index_second = Some 2,
        t = Some (3 / 4), interior_curve = Some FIRST\<rparr>, \<lparr>ident = Some 1, index_first = Some 1, s = Some (1 / 2), index_second = Some 2,
        t = Some (1 / 4), interior_curve = Some SECOND\<rparr>] \<lparr>ident = Some 0, index_first = Some 0, s = Some (1 / 2), index_second = Some 2,
        t = Some (3 / 4), interior_curve = Some FIRST\<rparr> [(\<lparr>ident = Some 1, index_first = Some 1, s = Some (1 / 2), index_second = Some 2,
        t = Some (1 / 4), interior_curve = Some SECOND\<rparr>, \<lparr>ident = Some 0, index_first = Some 0, s = Some (1 / 2), index_second = Some 2,
        t = Some (3 / 4), interior_curve = Some FIRST\<rparr>)] [] = Inr ([(\<lparr>ident = Some 1, index_first = Some 1, s = Some (1 / 2), index_second = Some 2,
        t = Some (1 / 4), interior_curve = Some SECOND\<rparr>, \<lparr>ident = Some 0, index_first = Some 0, s = Some (1 / 2), index_second = Some 2,
        t = Some (3 / 4), interior_curve = Some FIRST\<rparr>), (\<lparr>ident = Some 0, index_first = Some 0, s = Some (1 / 2), index_second = Some 2,
        t = Some (3 / 4), interior_curve = Some FIRST\<rparr>, \<lparr>ident = None, index_first = Some 0, s = Some 1, index_second = None,
        t = None, interior_curve = Some FIRST\<rparr>), (\<lparr>ident = None, index_first = Some 1, s = Some 0, index_second = None,
        t = None, interior_curve = Some FIRST\<rparr>, \<lparr>ident = Some 1, index_first = Some 1, s = Some (1 / 2), index_second = Some 2,
        t = Some (1 / 4), interior_curve = Some SECOND\<rparr>)], [])"
    by (simp add: basic_interior_combine_def combine_intersections_def acceptable_def
        trace_loop_def get_next_def get_next_first_def get_next_second_def py_gt_def py_lt_def
        discard_def is_same_def to_front_def next_index_def ends_to_curve_def
        make_intersection_def FIRST_SURFACE_INFO_def SECOND_SURFACE_INFO_def edge_nodes_def
        tuple_get_def specialize_curve_def Let_def)
  have tf: "to_front \<lparr>ident = None, index_first = Some 0, s = Some 1, index_second = None,
        t = None, interior_curve = Some FIRST\<rparr> [\<lparr>ident = Some 0, index_first = Some 0, s = Some (1 / 2), index_second = Some 2,
        t = Some (3 / 4), interior_curve = Some FIRST\<rparr>, \<lparr>ident = Some 1, index_first = Some 1, s = Some (1 / 2), index_second = Some 2,
        t = Some (1 / 4), interior_curve = Some SECOND\<rparr>] [] = Inr (\<lparr>ident = None, index_first = Some 1, s = Some 0, index_second = None,
        t = None, interior_curve = Some FIRST\<rparr>, [])"
    by (simp add: basic_interior_combine_def combine_intersections_def acceptable_def
        trace_loop_def get_next_def get_next_first_def get_next_second_def py_gt_def py_lt_def
        discard_def is_same_def to_front_def next_index_def ends_to_curve_def
        make_intersection_def FIRST_SURFACE_INFO_def SECOND_SURFACE_INFO_def edge_nodes_def
        tuple_get_def specialize_curve_def Let_def)
  have gn: "get_next \<lparr>ident = None, index_first = Some 1, s = Some 0, index_second = None,
        t = None, interior_curve = Some FIRST\<rparr> [\<lparr>ident = Some 0, index_first = Some 0, s = Some (1 / 2), index_second = Some 2,
        t = Some (3 / 4), interior_curve = Some FIRST\<rparr>, \<lparr>ident = Some 1, index_first = Some 1, s = Some (1 / 2), index_second = Some 2,
        t = Some (1 / 4), interior_curve = Some SECOND\<rparr>] [] = Inr (\<lparr>ident = Some 1, index_first = Some 1, s = Some (1 / 2), index_second = Some 2,
        t = Some (1 / 4), interior_curve = Some SECOND\<rparr>, [])"
    by (simp add: basic_interior_combine_def combine_intersections_def acceptable_def
        trace_loop_def get_next_def get_next_first_def get_next_second_def py_gt_def py_lt_def
        discard_def is_same_def to_front_def next_index_def ends_to_curve_def
        make_intersection_def FIRST_SURFACE_INFO_def SECOND_SURFACE_INFO_def edge_nodes_def
        tuple_get_def specialize_curve_def Let_def)
  have n1: "\<not> is_same \<lparr>ident = None, index_first = Some 0, s = Some 1, index_second = None,
        t = None, interior_curve = Some FIRST\<rparr> \<lparr>ident = Some 1, index_first = Some 1, s = Some (1 / 2), index_second = Some 2,
        t = Some (1 / 4), interior_curve = Some SECOND\<rparr>" and n2: "\<not> is_same \<lparr>ident = None, index_first = Some 1, s = Some 0, index_second = None,
        t = None, interior_curve = Some FIRST\<rparr> \<lparr>ident = Some 1, index_first = Some 1, s = Some (1 / 2), index_second = Some 2,
        t = Some (1 / 4), interior_curve = Some SECOND\<rparr>"
    by (simp_all add: is_same_def)
  have r1: "basic_interior_combine specialize_curve [\<lparr>ident = Some 0, index_first = Some 0, s = Some (1 / 2), index_second = Some 2,
        t = Some (3 / 4), interior_curve = Some FIRST\<rparr>, \<lparr>ident = Some 1, index_first = Some 1, s = Some (1 / 2), index_second = Some 2,
        t = Some (1 / 4), interior_curve = Some SECOND\<rparr>] \<lparr>surface_nodes = [(0, 0), (4, 0), (0, 4)]\<rparr> [Some [(0, 0), (4, 0)], Some [(4, 0), (0, 4)], Some [(0, 4), (0, 0)]] \<lparr>surface_nodes = [(2, - 1), (6, - 1), (2, 3)]\<rparr> [Some [(2, - 1), (6, - 1)], Some [(6, - 1), (2, 3)], Some [(2, 3), (2, - 1)]] 1
       = Inl (RuntimeError ''Unexpected number of edges'')"
    by (simp add: basic_interior_combine_def combine_intersections_def acceptable_def
        trace_loop_def get_next_def get_next_first_def get_next_second_def py_gt_def py_lt_def
        discard_def is_same_def to_front_def next_index_def ends_to_curve_def
        make_intersection_def FIRST_SURFACE_INFO_def SECOND_SURFACE_INFO_def edge_nodes_def
        tuple_get_def specialize_curve_def Let_def)
  note th = assembler_edge_bound
        [of 10 "[\<lparr>ident = Some 0, index_first = Some 0, s = Some (1 / 2), index_second = Some 2,
        t = Some (3 / 4), interior_curve = Some FIRST\<rparr>, \<lparr>ident = Some 1, index_first = Some 1, s = Some (1 / 2), index_second = Some 2,
        t = Some (1 / 4), interior_curve = Some SECOND\<rparr>]" specialize_curve "\<lparr>surface_nodes = [(0, 0), (4, 0), (0, 4)]\<rparr>" "[Some [(0, 0), (4, 0)], Some [(4, 0), (0, 4)], Some [(0, 4), (0, 0)]]" "\<lparr>surface_nodes = [(2, - 1), (6, - 1), (2, 3)]\<rparr>" "[Some [(2, - 1), (6, - 1)], Some [(6, - 1), (2, 3)], Some [(2, 3), (2, - 1)]]" "[CurvedPolygon [[(2, 2), (2, 0)], [(2, 0), (4, 0)], [(4, 0), (2, 2)]]]" "CurvedPolygon [[(2, 2), (2, 0)], [(2, 0), (4, 0)], [(4, 0), (2, 2)]]"
            "\<lambda>sf p. None" "\<lparr>ident = Some 0, index_first = Some 0, s = Some (1 / 2), index_second = Some 2,
        t = Some (3 / 4), interior_curve = Some FIRST\<rparr>" "\<lparr>ident = Some 1, index_first = Some 1, s = Some (1 / 2), index_second = Some 2,
        t = Some (1 / 4), interior_curve = Some SECOND\<rparr>" "[]" "\<lparr>ident = Some 0, index_first = Some 0, s = Some (1 / 2), index_second = Some 2,
        t = Some (3 / 4), interior_curve = Some FIRST\<rparr>" "[]" "\<lparr>ident = Some 0, index_first = Some 0, s = Some (1 / 2), index_second = Some 2,
        t = Some (3 / 4), interior_curve = Some FIRST\<rparr>" "[]" "[(\<lparr>ident = Some 1, index_first = Some 1, s = Some (1 / 2), index_second = Some 2,
        t = Some (1 / 4), interior_curve = Some SECOND\<rparr>, \<lparr>ident = Some 0, index_first = Some 0, s = Some (1 / 2), index_second = Some 2,
        t = Some (3 / 4), interior_curve = Some FIRST\<rparr>)]" "[(\<lparr>ident = Some 1, index_first = Some 1, s = Some (1 / 2), index_second = Some 2,
        t = Some (1 / 4), interior_curve = Some SECOND\<rparr>, \<lparr>ident = Some 0, index_first = Some 0, s = Some (1 / 2), index_second = Some 2,
        t = Some (3 / 4), interior_curve = Some FIRST\<rparr>), (\<lparr>ident = Some 0, index_first = Some 0, s = Some (1 / 2), index_second = Some 2,
        t = Some (3 / 4), interior_curve = Some FIRST\<rparr>, \<lparr>ident = None, index_first = Some 0, s = Some 1, index_second = None,
        t = None, interior_curve = Some FIRST\<rparr>), (\<lparr>ident = None, index_first = Some 1, s = Some 0, index_second = None,
        t = None, interior_curve = Some FIRST\<rparr>, \<lparr>ident = Some 1, index_first = Some 1, s = Some (1 / 2), index_second = Some 2,
        t = Some (1 / 4), interior_curve = Some SECOND\<rparr>)]" "[]"]
  note th2 = assembler_edge_bound
        [of 2 "[\<lparr>ident = Some 0, index_first = Some 0, s = Some (1 / 2), index_second = Some 2,
        t = Some (3 / 4), interior_curve = Some FIRST\<rparr>, \<lparr>ident = Some 1, index_first = Some 1, s = Some (1 / 2), index_second = Some 2,
        t = Some (1 / 4), interior_curve = Some SECOND\<rparr>]" specialize_curve "\<lparr>surface_nodes = [(0, 0), (4, 0), (0, 4)]\<rparr>" "[Some [(0, 0), (4, 0)], Some [(4, 0), (0, 4)], Some [(0, 4), (0, 0)]]" "\<lparr>surface_nodes = [(2, - 1), (6, - 1), (2, 3)]\<rparr>" "[Some [(2, - 1), (6, - 1)], Some [(6, - 1), (2, 3)], Some [(2, 3), (2, - 1)]]" "[CurvedPolygon [[(2, 2), (2, 0)], [(2, 0), (4, 0)], [(4, 0), (2, 2)]]]" "CurvedPolygon [[(2, 2), (2, 0)], [(2, 0), (4, 0)], [(4, 0), (2, 2)]]"
            "\<lambda>sf p. None" "\<lparr>ident = None, index_first = Some 0, s = Some 1, index_second = None,
        t = None, interior_curve = Some FIRST\<rparr>" "\<lparr>ident = Some 1, index_first = Some 1, s = Some (1 / 2), index_second = Some 2,
        t = Some (1 / 4), interior_curve = Some SECOND\<rparr>" "[]" "\<lparr>ident = None, index_first = Some 1, s = Some 0, index_second = None,
        t = None, interior_curve = Some FIRST\<rparr>" "[]" "\<lparr>ident = Some 1, index_first = Some 1, s = Some (1 / 2), index_second = Some 2,
        t = Some (1 / 4), interior_curve = Some SECOND\<rparr>" "[]" "[(\<lparr>ident = Some 1, index_first = Some 1, s = Some (1 / 2), index_second = Some 2,
        t = Some (1 / 4), interior_curve = Some SECOND\<rparr>, \<lparr>ident = Some 0, index_first = Some 0, s = Some (1 / 2), index_second = Some 2,
        t = Some (3 / 4), interior_curve = Some FIRST\<rparr>), (\<lparr>ident = Some 0, index_first = Some 0, s = Some (1 / 2), index_second = Some 2,
        t = Some (3 / 4), interior_curve = Some FIRST\<rparr>, \<lparr>ident = None, index_first = Some 0, s = Some 1, index_second = None,
        t = None, interior_curve = Some FIRST\<rparr>)]"
            "[(\<lparr>ident = Some 1, index_first = Some 1, s = Some (1 / 2), index_second = Some 2,
        t = Some (1 / 4), interior_curve = Some SECOND\<rparr>, \<lparr>ident = Some 0, index_first = Some 0, s = Some (1 / 2), index_second = Some 2,
        t = Some (3 / 4), interior_curve = Some FIRST\<rparr>), (\<lparr>ident = Some 0, index_first = Some 0, s = Some (1 / 2), index_second = Some 2,
        t = Some (3 / 4), interior_curve = Some FIRST\<rparr>, \<lparr>ident = None, index_first = Some 0, s = Some 1, index_second = None,
        t = None, interior_curve = Some FIRST\<rparr>), (\<lparr>ident = None, index_first = Some 1, s = Some 0, index_second = None,
        t = None, interior_curve = Some FIRST\<rparr>, \<lparr>ident = Some 1, index_first = Some 1, s = Some (1 / 2), index_second = Some 2,
        t = Some (1 / 4), interior_curve = Some SECOND\<rparr>)]" "[]"]
  have wr: "walk \<lparr>ident = Some 1, index_first = Some 1, s = Some (1 / 2), index_second = Some 2,
        t = Some (1 / 4), interior_curve = Some SECOND\<rparr> 2 [\<lparr>ident = Some 0, index_first = Some 0, s = Some (1 / 2), index_second = Some 2,
        t = Some (3 / 4), interior_curve = Some FIRST\<rparr>, \<lparr>ident = Some 1, index_first = Some 1, s = Some (1 / 2), index_second = Some 2,
        t = Some (1 / 4), interior_curve = Some SECOND\<rparr>] \<lparr>ident = None, index_first = Some 0, s = Some 1, index_second = None,
        t = None, interior_curve = Some FIRST\<rparr> [(\<lparr>ident = Some 1, index_first = Some 1, s = Some (1 / 2), index_second = Some 2,
        t = Some (1 / 4), interior_curve = Some SECOND\<rparr>, \<lparr>ident = Some 0, index_first = Some 0, s = Some (1 / 2), index_second = Some 2,
        t = Some (3 / 4), interior_curve = Some FIRST\<rparr>), (\<lparr>ident = Some 0, index_first = Some 0, s = Some (1 / 2), index_second = Some 2,
        t = Some (3 / 4), interior_curve = Some FIRST\<rparr>, \<lparr>ident = None, index_first = Some 0, s = Some 1, index_second = None,
        t = None, interior_curve = Some FIRST\<rparr>)] []
       = Inl (RuntimeError ''Unexpected number of edges'')"
    using th2 [THEN conjunct2, THEN conjunct2, THEN conjunct1] n1 tf n2 gn by simp
  have s1: "int (num_sides (CurvedPolygon [[(2, 2), (2, 0)], [(2, 0), (4, 0)], [(4, 0), (2, 2)]])) \<le> 10"
    using th [THEN conjunct1] v b by simp
  have s2: "num_sides (CurvedPolygon [[(2, 2), (2, 0)], [(2, 0), (4, 0)], [(4, 0), (2, 2)]]) \<le> 10"
    using th [THEN conjunct2, THEN conjunct1] c by simp
  have s3: "int (length ([(\<lparr>ident = Some 1, index_first = Some 1, s = Some (1 / 2), index_second = Some 2,
        t = Some (1 / 4), interior_curve = Some SECOND\<rparr>, \<lparr>ident = Some 0, index_first = Some 0, s = Some (1 / 2), index_second = Some 2,
        t = Some (3 / 4), interior_curve = Some FIRST\<rparr>), (\<lparr>ident = Some 0, index_first = Some 0, s = Some (1 / 2), index_second = Some 2,
        t = Some (3 / 4), interior_curve = Some FIRST\<rparr>, \<lparr>ident = None, index_first = Some 0, s = Some 1, index_second = None,
        t = None, interior_curve = Some FIRST\<rparr>), (\<lparr>ident = None, index_first = Some 1, s = Some 0, index_second = None,
        t = None, interior_curve = Some FIRST\<rparr>, \<lparr>ident = Some 1, index_first = Some 1, s = Some (1 / 2), index_second = Some 2,
        t = Some (1 / 4), interior_curve = Some SECOND\<rparr>)])) \<le> max 10 (int (length [(\<lparr>ident = Some 1, index_first = Some 1, s = Some (1 / 2), index_second = Some 2,
        t = Some (1 / 4), interior_curve = Some SECOND\<rparr>, \<lparr>ident = Some 0, index_first = Some 0, s = Some (1 / 2), index_second = Some 2,
        t = Some (3 / 4), interior_curve = Some FIRST\<rparr>)]))"
    using th [THEN conjunct2, THEN conjunct2, THEN conjunct2, THEN conjunct1] w by simp
  show ?thesis using v b s1 c s2 wr w s3 r1 by simp
qed

section \<open>Properties of the sign certifier\<close>

lemma set_signs_update: "set (signs_update xs signs) = set xs \<union> set signs"
  unfolding signs_update_def by (induction xs arbitrary: signs) auto

lemma corner_signs_range: "corner_signs poly degree = Inr cs \<Longrightarrow> set cs \<subseteq> {- 1, 0, 1}"
  by (auto simp: corner_signs_def sign_int_def split: sum.splits)

lemma scan_polys_range:
  "scan_polys degree ps signs und = Inr (Some (signs', und')) \<Longrightarrow> set signs \<subseteq> {- 1, 0, 1}
   \<Longrightarrow> set signs' \<subseteq> {- 1, 0, 1}"
proof (induction ps arbitrary: signs und)
  case Nil
  then show ?case by simp
next
  case (Cons p ps)
  from Cons.prems(1) obtain cs where cs: "corner_signs p degree = Inr cs"
    by (auto split: sum.splits)
  let ?s1 = "signs_update cs signs"
  have r1: "set ?s1 \<subseteq> {- 1, 0, 1}"
    using corner_signs_range[OF cs] Cons.prems(2) by (simp add: set_signs_update)
  obtain s2 u2 where su: "(if list_all (\<lambda>c. c = 0) p then (List.insert 0 ?s1, und)
                  else if list_all (\<lambda>c. c > 0) p then (List.insert 1 ?s1, und)
                  else if list_all (\<lambda>c. c < 0) p then (List.insert (- 1) ?s1, und)
                  else (?s1, und @ [p])) = (s2, u2)"
    by (cases "(if list_all (\<lambda>c. c = 0) p then (List.insert 0 ?s1, und)
                  else if list_all (\<lambda>c. c > 0) p then (List.insert 1 ?s1, und)
                  else if list_all (\<lambda>c. c < 0) p then (List.insert (- 1) ?s1, und)
                  else (?s1, und @ [p]))") auto
  have r2: "set s2 \<subseteq> {- 1, 0, 1}"
    using su r1 by (auto split: if_splits)
  from Cons.prems(1) cs su have "scan_polys degree ps s2 u2 = Inr (Some (signs', und'))"
    by (simp add: Let_def split: if_splits)
  from Cons.IH[OF this r2] show ?case .
qed

lemma conclude_range: "conclude ps signs = Inr v \<Longrightarrow> v \<in> set signs"
  by (auto simp: conclude_def signs_pop_def split: if_splits list.splits)

lemma subdivision_rounds_range:
  "subdivision_rounds n subdivide degree ps signs = Inr v \<Longrightarrow> set signs \<subseteq> {- 1, 0, 1}
   \<Longrightarrow> v \<in> {- 1, 0, 1}"
proof (induction n arbitrary: ps signs)
  case 0
  then show ?case using conclude_range by fastforce
next
  case (Suc n)
  show ?case
  proof (cases "scan_polys degree ps signs []")
    case (Inl e)
    with Suc.prems show ?thesis by simp
  next
    case (Inr res)
    show ?thesis
    proof (cases res)
      case None
      with Inr Suc.prems show ?thesis by simp
    next
      case (Some pr)
      obtain signs' und where pr: "pr = (signs', und)" by (cases pr)
      have r: "set signs' \<subseteq> {- 1, 0, 1}"
        using scan_polys_range Inr Some pr Suc.prems(2) by blast
      show ?thesis
      proof (cases "subdivide_all subdivide degree und")
        case (Inl e)
        with Inr Some pr Suc.prems show ?thesis by simp
      next
        case sub: (Inr ps')
        show ?thesis
        proof (cases "ps' = []")
          case True
          with Inr Some pr sub Suc.prems(1) have "conclude [] signs' = Inr v" by simp
          from conclude_range[OF this] r show ?thesis by auto
        next
          case False
          with Inr Some pr sub Suc.prems(1)
          have "subdivision_rounds n subdivide degree ps' signs' = Inr v" by simp
          from Suc.IH[OF this r] show ?thesis .
        qed
      qed
    qed
  qed
qed

lemma polynomial_sign_first_round:
  "polynomial_sign subdivide poly degree = subdivision_rounds (Suc 4) subdivide degree [poly] []"
  by (simp add: polynomial_sign_def MAX_POLY_SUBDIVISIONS_def)

lemma length_insert_ge: "length xs \<le> length (List.insert x xs)"
  by (simp add: List.insert_def)

lemma tuple_get_mem: "tuple_get xs i = Inr x \<Longrightarrow> x \<in> set xs"
  by (auto simp: tuple_get_def split: if_splits)

lemma tuple_get_valid:
  "- int (length xs) \<le> i \<Longrightarrow> i < int (length xs) \<Longrightarrow> \<exists>x. tuple_get xs i = Inr x"
  by (auto simp: tuple_get_def)

lemma corner_signs_positive:
  assumes "poly \<noteq> []" "- int (length poly) \<le> degree" "degree < int (length poly)"
    "\<forall>c \<in> set poly. 0 < c"
  shows "corner_signs poly degree = Inr [1, 1, 1]"
proof -
  have l: "0 < length poly" using assms(1) by simp
  obtain c0 where c0: "tuple_get poly 0 = Inr c0" using tuple_get_valid[of poly 0] l by auto
  obtain c1 where c1: "tuple_get poly degree = Inr c1"
    using tuple_get_valid[of poly degree] assms by auto
  obtain c2 where c2: "tuple_get poly (- 1) = Inr c2"
    using tuple_get_valid[of poly "- 1"] l by auto
  have "0 < c0" "0 < c1" "0 < c2"
    using tuple_get_mem[OF c0] tuple_get_mem[OF c1] tuple_get_mem[OF c2] assms(4) by auto
  then show ?thesis by (simp add: corner_signs_def c0 c1 c2 sign_int_def)
qed

lemma polynomial_sign_positive:
  assumes "poly \<noteq> []" "- int (length poly) \<le> degree" "degree < int (length poly)"
    "\<forall>c \<in> set poly. 0 < c"
  shows "polynomial_sign subdivide poly degree = Inr 1"
proof -
  have pos: "list_all (\<lambda>c. c > 0) poly" using assms(4) by (simp add: list_all_iff)
  have nz: "\<not> list_all (\<lambda>c. c = 0) poly"
    using assms(1,4) by (cases poly) (auto simp: list_all_iff)
  have sc: "scan_polys degree [poly] [] [] = Inr (Some ([1], []))"
    by (simp add: corner_signs_positive[OF assms] signs_update_def pos nz)
  show ?thesis
    unfolding polynomial_sign_first_round subdivision_rounds.simps(2) sc
    by (simp add: conclude_def signs_pop_def)
qed

lemma polynomial_sign_mixed_corners:
  assumes "tuple_get poly 0 = Inr c0" "tuple_get poly degree = Inr c1"
    "tuple_get poly (- 1) = Inr c2" "\<not> (sgn c0 = sgn c1 \<and> sgn c1 = sgn c2)"
  shows "polynomial_sign subdivide poly degree = Inr 0"
proof -
  have cs: "corner_signs poly degree = Inr [sign_int c0, sign_int c1, sign_int c2]"
    using assms by (simp add: corner_signs_def)
  have ne: "\<not> (sign_int c0 = sign_int c1 \<and> sign_int c1 = sign_int c2)"
    using assms(4) by (auto simp: sign_int_def sgn_if split: if_splits)
  let ?s1 = "signs_update [sign_int c0, sign_int c1, sign_int c2] []"
  have l1: "1 < length ?s1"
    using ne by (auto simp: signs_update_def List.insert_def)
  have l2: "\<And>x. 1 < length (List.insert x ?s1)"
    using l1 length_insert_ge[of ?s1] by (meson less_le_trans)
  have sc: "scan_polys degree [poly] [] [] = Inr None"
    using l1 l2 by (simp add: cs Let_def)
  show ?thesis
    unfolding polynomial_sign_first_round subdivision_rounds.simps(2) sc by simp
qed

text \<open>
  C8, as amended.  Whatever \<open>polynomial_sign\<close> returns is one of \<open>-1\<close>, \<open>0\<close>, \<open>1\<close>
  (it may also raise).  On a non-empty column whose corner index \<open>degree\<close> is in range
  it returns \<open>1\<close> when every coefficient is strictly positive, and it returns \<open>0\<close>
  when the corner coefficients (indices \<open>0\<close>, \<open>degree\<close> and \<open>-1\<close>) do not all have the
  same sign.
\<close>

theorem polynomial_sign_values:
  "(polynomial_sign subdivide poly degree = Inr v \<longrightarrow> v \<in> {- 1, 0, 1})
   \<and> (poly \<noteq> [] \<and> - int (length poly) \<le> degree \<and> degree < int (length poly)
        \<and> (\<forall>c \<in> set poly. 0 < c)
       \<longrightarrow> polynomial_sign subdivide poly degree = Inr 1)
   \<and> (tuple_get poly 0 = Inr c0 \<and> tuple_get poly degree = Inr c1
        \<and> tuple_get poly (- 1) = Inr c2 \<and> \<not> (sgn c0 = sgn c1 \<and> sgn c1 = sgn c2)
       \<longrightarrow> polynomial_sign subdivide poly degree = Inr 0)"
proof (intro conjI impI)
  assume "polynomial_sign subdivide poly degree = Inr v"
  then show "v \<in> {- 1, 0, 1}"
    unfolding polynomial_sign_def by (rule subdivision_rounds_range) simp
next
  assume "poly \<noteq> [] \<and> - int (length poly) \<le> degree \<and> degree < int (length poly)
        \<and> (\<forall>c \<in> set poly. 0 < c)"
  then show "polynomial_sign subdivide poly degree = Inr 1"
    using polynomial_sign_positive by blast
next
  assume "tuple_get poly 0 = Inr c0 \<and> tuple_get poly degree = Inr c1
        \<and> tuple_get poly (- 1) = Inr c2 \<and> \<not> (sgn c0 = sgn c1 \<and> sgn c1 = sgn c2)"
  then show "polynomial_sign subdivide poly degree = Inr 0"
    using polynomial_sign_mixed_corners by blast
qed

lemma rounds_performed_le: "rounds_performed n subdivide degree ps signs \<le> n"
proof (induction n arbitrary: ps signs)
  case 0
  show ?case by simp
next
  case (Suc n)
  show ?case
    using Suc.IH
    by (auto split: sum.splits option.splits prod.splits simp: Suc_le_eq le_imp_less_Suc)
qed

lemma exhausted_raises:
  "exhausted n subdivide degree ps signs
   \<Longrightarrow> subdivision_rounds n subdivide degree ps signs = Inl (ValueError NO_CONCLUSION)"
proof (induction n arbitrary: ps signs)
  case 0
  then show ?case by (simp add: conclude_def)
next
  case (Suc n)
  from Suc.prems show ?case
    by (auto split: sum.splits option.splits prod.splits simp: Suc.IH)
qed

lemma exhausted_rounds:
  "exhausted n subdivide degree ps signs \<Longrightarrow> rounds_performed n subdivide degree ps signs = n"
proof (induction n arbitrary: ps signs)
  case 0
  then show ?case by simp
next
  case (Suc n)
  from Suc.prems show ?case
    by (auto split: sum.splits option.splits prod.splits simp: Suc.IH)
qed

text \<open>
  C9.  \<open>polynomial_sign\<close> is a total function: its loop is a recursion on the rounds
  that remain, five at the start.  It performs at most 5 rounds of subdivision, and
  when all five have run and polynomials are still undecided it raises the
  \<open>ValueError\<close> for no conclusion.
\<close>

theorem polynomial_sign_bounded:
  "rounds_performed MAX_POLY_SUBDIVISIONS subdivide degree [poly] [] \<le> 5
   \<and> (exhausted MAX_POLY_SUBDIVISIONS subdivide degree [poly] []
       \<longrightarrow> rounds_performed MAX_POLY_SUBDIVISIONS subdivide degree [poly] [] = 5
         \<and> polynomial_sign subdivide poly degree = Inl (ValueError NO_CONCLUSION))"
  using rounds_performed_le[of MAX_POLY_SUBDIVISIONS subdivide degree "[poly]" "[]"]
    exhausted_raises[of MAX_POLY_SUBDIVISIONS subdivide degree "[poly]" "[]"]
    exhausted_rounds[of MAX_POLY_SUBDIVISIONS subdivide degree "[poly]" "[]"]
  by (simp add: polynomial_sign_def MAX_POLY_SUBDIVISIONS_def)

text \<open>
  The quadratic with Bernstein coefficients \<open>[4, -2, 4, -2, 4, 1]\<close> has positive
  corners and mixed coefficients, and each of the five rounds leaves one sub-triangle
  undecided.  Degree 2 takes the branch of \<open>QUADRATIC_SUBDIVIDE_A\<close> to
  \<open>QUADRATIC_SUBDIVIDE_D\<close>, so the parameter of the last branch is never called.
\<close>

lemma quadratic_exhausted:
  "exhausted 5 (subdivide_nodes (\<lambda>nodes degree a b c. Inl TypeError)) 2 [[4, - 2, 4, - 2, 4, 1]] []"
  by (simp add: eval_nat_numeral subdivide_nodes_def
        QUADRATIC_SUBDIVIDE_A_def QUADRATIC_SUBDIVIDE_B_def QUADRATIC_SUBDIVIDE_C_def
        QUADRATIC_SUBDIVIDE_D_def matrix_product_def corner_signs_def tuple_get_def sign_int_def
        signs_update_def Let_def)

text \<open>
  C8 as stated fails: on that quadratic \<open>polynomial_sign\<close> returns no value but raises
  the \<open>ValueError\<close>, and on the all-positive column \<open>[1, 1, 1]\<close> with \<open>degree = 3\<close>
  the corner index is out of range and it raises \<open>IndexError\<close>.
\<close>

theorem polynomial_sign_values_counterexample:
  "polynomial_sign (subdivide_nodes (\<lambda>nodes degree a b c. Inl TypeError)) [4, - 2, 4, - 2, 4, 1] 2
     = Inl (ValueError NO_CONCLUSION)
   \<and> polynomial_sign (subdivide_nodes (\<lambda>nodes degree a b c. Inl TypeError)) [1, 1, 1] 3 = Inl IndexError"
proof (rule conjI)
  show "polynomial_sign (subdivide_nodes (\<lambda>nodes degree a b c. Inl TypeError)) [4, - 2, 4, - 2, 4, 1] 2
     = Inl (ValueError NO_CONCLUSION)"
    unfolding polynomial_sign_def MAX_POLY_SUBDIVISIONS_def
    by (rule exhausted_raises [OF quadratic_exhausted])
next
  show "polynomial_sign (subdivide_nodes (\<lambda>nodes degree a b c. Inl TypeError)) [1, 1, 1] 3 = Inl IndexError"
    unfolding polynomial_sign_first_round subdivision_rounds.simps(2)
    by (simp add: corner_signs_def tuple_get_def)
qed

text \<open>
  The amended C8 on two linear polynomials: \<open>[1, 2, 3]\<close> is positive, and the corners
  of \<open>[1, 5, -1]\<close> differ in sign.
\<close>

theorem polynomial_sign_values_witness:
  "polynomial_sign (subdivide_nodes (\<lambda>nodes degree a b c. Inl TypeError)) [1, 2, 3] 1 = Inr 1
   \<and> (1 :: int) \<in> {- 1, 0, 1}
   \<and> polynomial_sign (subdivide_nodes (\<lambda>nodes degree a b c. Inl TypeError)) [1, 5, - 1] 1 = Inr 0"
  using polynomial_sign_values
      [of "subdivide_nodes (\<lambda>nodes degree a b c. Inl TypeError)" "[1, 2, 3]" 1 1 1 2 3]
    polynomial_sign_values
      [of "subdivide_nodes (\<lambda>nodes degree a b c. Inl TypeError)" "[1, 5, - 1]" 1 0 1 5 "- 1"]
  by (simp add: tuple_get_def)

text \<open>C9 on the quadratic above: all five rounds run, and the error is raised.\<close>

theorem polynomial_sign_bounded_witness:
  "exhausted MAX_POLY_SUBDIVISIONS (subdivide_nodes (\<lambda>nodes degree a b c. Inl TypeError)) 2 [[4, - 2, 4, - 2, 4, 1]] []
   \<and> rounds_performed MAX_POLY_SUBDIVISIONS (subdivide_nodes (\<lambda>nodes degree a b c. Inl TypeError)) 2
        [[4, - 2, 4, - 2, 4, 1]] [] = 5
   \<and> polynomial_sign (subdivide_nodes (\<lambda>nodes degree a b c. Inl TypeError)) [4, - 2, 4, - 2, 4, 1] 2
        = Inl (ValueError NO_CONCLUSION)"
proof -
  have ex: "exhausted MAX_POLY_SUBDIVISIONS (subdivide_nodes (\<lambda>nodes degree a b c. Inl TypeError)) 2
              [[4, - 2, 4, - 2, 4, 1]] []"
    unfolding MAX_POLY_SUBDIVISIONS_def by (rule quadratic_exhausted)
  have c: "rounds_performed MAX_POLY_SUBDIVISIONS (subdivide_nodes (\<lambda>nodes degree a b c. Inl TypeError)) 2
             [[4, - 2, 4, - 2, 4, 1]] [] = 5
           \<and> polynomial_sign (subdivide_nodes (\<lambda>nodes degree a b c. Inl TypeError)) [4, - 2, 4, - 2, 4, 1] 2
               = Inl (ValueError NO_CONCLUSION)"
    using polynomial_sign_bounded
            [of "subdivide_nodes (\<lambda>nodes degree a b c. Inl TypeError)" 2 "[4, - 2, 4, - 2, 4, 1]", THEN conjunct2] ex
    by (rule mp)
  show ?thesis using ex c by (rule conjI)
qed

end
